theory Spec2Isabelle
  imports Main "HOL-Library.AList" "HOL-Library.Char_ord" "HOL-Library.List_Lexorder"
begin

section \<open>Data shared by the two server variants\<close>

text \<open>
  The repository holds two variants of one Socket.IO relay: \<^verbatim>\<open>server.js\<close> and a second
  file, \<^verbatim>\<open>part_000\<close> (called the second variant below). Both keep four process-wide collections
  (\<^verbatim>\<open>onlineUsers\<close>, \<^verbatim>\<open>allBubbles\<close>, \<^verbatim>\<open>chatrooms\<close> and a chat log) and react to the
  same socket events. Each handler is modelled as a function from the state before to the
  state after together with the list of emits it performs, in program order.

  JavaScript values are modelled as follows. A socket id and a room name are strings. A
  value used as a Map key or compared with \<^verbatim>\<open>===\<close> that the client controls is a
  \<open>key\<close>: \<^verbatim>\<open>undefined\<close> or a string. Timestamps (\<^verbatim>\<open>Date.now()\<close>, milliseconds) and
  durations (seconds) are integers; where the program computes with numbers a client
  chose, in the snapshot filter of the second variant, the arithmetic is that of doubles
  (see \<open>toDouble\<close>). A \<^verbatim>\<open>Map\<close> is an association list with distinct keys
  in insertion order: \<^verbatim>\<open>get\<close> is \<open>map_of\<close>, \<^verbatim>\<open>set\<close> is \<open>AList.update\<close>, \<^verbatim>\<open>delete\<close> is
  \<open>AList.delete\<close>, \<^verbatim>\<open>size\<close> is \<open>length\<close>. The clock, the random suffix of an identifier
  and the formatted time of day are inputs of the handler that reads them. Real time is
  not modelled: an armed timer and the sweep may run at any later point of a run. The
  room subscriptions that Socket.IO keeps for \<^verbatim>\<open>socket.join\<close> and \<^verbatim>\<open>socket.leave\<close> are
  inside the library; an emit records the audience it was addressed to.
\<close>

type_synonym sid = string

datatype key = Undefined | Key string

text \<open>The object a client sends with \<^verbatim>\<open>userJoin\<close>, and the record the registry stores
  (the same object with \<^verbatim>\<open>socketId\<close>, and in \<^verbatim>\<open>server.js\<close> \<^verbatim>\<open>joinTime\<close>, overwritten).\<close>

record user =
  uid :: key
  nickname :: string
  avatar :: string
  socketId :: sid
  joinTime :: int

text \<open>The object a client sends with \<^verbatim>\<open>publishBubble\<close>, and the stored bubble. The field
  \<^verbatim>\<open>id\<close> is written \<open>id'\<close>.\<close>

record bubble =
  id' :: key
  title :: string
  author :: string
  createdAt :: int
  duration :: int
  isPrivate :: bool

text \<open>Message records: a room message and a private message of \<^verbatim>\<open>server.js\<close>, a room
  message and a friend message of the second variant.\<close>

record msg =
  msg_nickname :: string
  msg_content :: string
  msg_time :: string

record pmsg =
  pm_from :: sid
  pm_nickname :: string
  pm_content :: string
  pm_time :: string

record msgData =
  md_nickname :: string
  md_avatar :: string
  md_content :: string
  md_timestamp :: int

record fmsg =
  fm_from :: key
  fm_to :: key
  fm_nickname :: string
  fm_avatar :: string
  fm_content :: string
  fm_timestamp :: int

text \<open>Outbound events, named after the event strings of the source, and their audience:
  \<^verbatim>\<open>io.emit\<close> (every connection), \<^verbatim>\<open>socket.emit\<close> (the handler's own connection) and
  \<^verbatim>\<open>io.to(room).emit\<close> (the Socket.IO room of that name; every socket is by default in
  the room named by its own id).\<close>

datatype payload =
    OnlineCount nat
  | InitialBubbles "bubble list"
  | AllBubbles "bubble list"
  | NewBubble bubble
  | BubbleExpired key
  | ChatroomHistory "msg list"
  | ChatroomHistory2 "msgData list"
  | ChatroomUserCount nat
  | ChatroomOnline nat
  | ChatroomMessage msg
  | ChatroomMessage2 msgData
  | PrivateMessage pmsg
  | FriendMessage fmsg

datatype emit =
    IoEmit payload
  | SocketEmit sid payload
  | IoTo string payload

text \<open>\<^verbatim>\<open>Array.prototype.findIndex\<close> (\<open>-1\<close> when no element satisfies the predicate) and
  \<^verbatim>\<open>splice(index, 1)\<close> for an index that was found.\<close>

fun findIndex :: "('a \<Rightarrow> bool) \<Rightarrow> 'a list \<Rightarrow> int" where
  "findIndex P [] = - 1"
| "findIndex P (x # xs) =
     (if P x then 0
      else (let i = findIndex P xs in if i > - 1 then i + 1 else - 1))"

definition splice1 :: "int \<Rightarrow> 'a list \<Rightarrow> 'a list" where
  "splice1 index xs = take (nat index) xs @ drop (nat index + 1) xs"

text \<open>\<^verbatim>\<open>Set.prototype.add\<close> on a set kept in insertion order.\<close>

definition setAdd :: "'a \<Rightarrow> 'a list \<Rightarrow> 'a list" where
  "setAdd x xs = (if x \<in> set xs then xs else xs @ [x])"

text \<open>Number to string conversion of an integer, as string concatenation performs it.\<close>

fun decimal :: "nat \<Rightarrow> string" where
  "decimal n =
     (if n < 10 then [''0123456789'' ! n]
      else decimal (n div 10) @ [''0123456789'' ! (n mod 10)])"

declare decimal.simps [simp del]

definition numberToString :: "int \<Rightarrow> string" where
  "numberToString i = (if i < 0 then CHR ''-'' # decimal (nat (- i)) else decimal (nat i))"

section \<open>The variant server.js\<close>

record room =
  room_id :: string
  users :: "sid list"
  messages :: "msg list"

text \<open>The state: the four collections, and the one-shot timers that \<^verbatim>\<open>setTimeout\<close> has
  armed and that have not fired yet, each with the bubble id its callback captured and its
  delay in milliseconds. \<^verbatim>\<open>privateChats\<close> is declared by the source and never used.\<close>

record server =
  onlineUsers :: "(sid \<times> user) list"
  allBubbles :: "bubble list"
  chatrooms :: "(string \<times> room) list"
  privateChats :: "(string \<times> pmsg list) list"
  timers :: "(key \<times> int) list"

definition init :: server where
  "init = \<lparr>onlineUsers = [], allBubbles = [], chatrooms = [], privateChats = [], timers = []\<rparr>"

text \<open>The filter of \<^verbatim>\<open>GET /api/bubbles\<close> and of \<^verbatim>\<open>userJoin\<close>.\<close>

definition activeBubbles :: "int \<Rightarrow> bubble list \<Rightarrow> bubble list" where
  "activeBubbles now bs =
     filter (\<lambda>b. if isPrivate b then False
                 else (let expireTime = createdAt b + duration b * 1000 in now < expireTime)) bs"


definition userJoin :: "sid \<Rightarrow> user \<Rightarrow> int \<Rightarrow> int \<Rightarrow> server \<Rightarrow> server \<times> emit list" where
  "userJoin sock userData joinNow now s =
     (let users' = AList.update sock (userData\<lparr>socketId := sock, joinTime := joinNow\<rparr>)
                     (onlineUsers s)
      in (s\<lparr>onlineUsers := users'\<rparr>,
          [IoEmit (OnlineCount (length users')),
           SocketEmit sock (InitialBubbles (activeBubbles now (allBubbles s)))]))"

text \<open>The identifier \<^verbatim>\<open>'bubble_' + Date.now() + '_' + Math.random().toString(36).substr(2, 9)\<close>;
  \<open>rnd\<close> is the random substring.\<close>

definition bubbleIdentifier :: "int \<Rightarrow> string \<Rightarrow> string" where
  "bubbleIdentifier now rnd = ''bubble_'' @ numberToString now @ ''_'' @ rnd"

text \<open>The callback that \<^verbatim>\<open>publishBubble\<close> hands to \<^verbatim>\<open>setTimeout\<close>.\<close>

definition expiryTimer :: "key \<Rightarrow> server \<Rightarrow> server \<times> emit list" where
  "expiryTimer bid s =
     (let index = findIndex (\<lambda>b. id' b = bid) (allBubbles s)
      in if index > - 1
         then (s\<lparr>allBubbles := splice1 index (allBubbles s)\<rparr>, [IoEmit (BubbleExpired bid)])
         else (s, []))"

definition publishBubble ::
  "sid \<Rightarrow> bubble \<Rightarrow> int \<Rightarrow> string \<Rightarrow> int \<Rightarrow> server \<Rightarrow> server \<times> emit list" where
  "publishBubble sock bubbleData idNow rnd now s =
     (let bubble = bubbleData\<lparr>id' := Key (bubbleIdentifier idNow rnd), createdAt := now\<rparr>;
          s1 = s\<lparr>allBubbles := allBubbles s @ [bubble]\<rparr>
      in (if \<not> isPrivate bubble
          then s1\<lparr>timers := timers s1 @ [(id' bubble, duration bubble * 1000)]\<rparr>
          else s1,
          [IoEmit (NewBubble bubble)]))"

definition joinChatroom :: "sid \<Rightarrow> string \<Rightarrow> server \<Rightarrow> server \<times> emit list" where
  "joinChatroom sock chatroomId s =
     (let room0 = (case map_of (chatrooms s) chatroomId of
                     None \<Rightarrow> \<lparr>room_id = chatroomId, users = [], messages = []\<rparr>
                   | Some r \<Rightarrow> r);
          room = room0\<lparr>users := setAdd sock (users room0)\<rparr>
      in (s\<lparr>chatrooms := AList.update chatroomId room (chatrooms s)\<rparr>,
          [SocketEmit sock (ChatroomHistory (messages room)),
           IoTo chatroomId (ChatroomUserCount (length (users room)))]))"

definition chatroomMessage ::
  "sid \<Rightarrow> string \<Rightarrow> string \<Rightarrow> string \<Rightarrow> string \<Rightarrow> server \<Rightarrow> server \<times> emit list" where
  "chatroomMessage sock chatroomId message nick time s =
     (case map_of (chatrooms s) chatroomId of
        None \<Rightarrow> (s, [])
      | Some room \<Rightarrow>
          (let m = \<lparr>msg_nickname = nick, msg_content = message, msg_time = time\<rparr>;
               pushed = messages room @ [m];
               kept = (if length pushed > 100 then tl pushed else pushed)
           in (s\<lparr>chatrooms := AList.update chatroomId (room\<lparr>messages := kept\<rparr>) (chatrooms s)\<rparr>,
               [IoTo chatroomId (ChatroomMessage m)])))"

definition leaveChatroom :: "sid \<Rightarrow> string \<Rightarrow> server \<Rightarrow> server \<times> emit list" where
  "leaveChatroom sock chatroomId s =
     (case map_of (chatrooms s) chatroomId of
        None \<Rightarrow> (s, [])
      | Some room \<Rightarrow>
          (let room' = room\<lparr>users := removeAll sock (users room)\<rparr>
           in (s\<lparr>chatrooms := AList.update chatroomId room' (chatrooms s)\<rparr>,
               [IoTo chatroomId (ChatroomUserCount (length (users room')))])))"

definition privateMessage ::
  "sid \<Rightarrow> string \<Rightarrow> string \<Rightarrow> string \<Rightarrow> string \<Rightarrow> server \<Rightarrow> server \<times> emit list" where
  "privateMessage sock targetUserId message nick time s =
     (let m = \<lparr>pm_from = sock, pm_nickname = nick, pm_content = message, pm_time = time\<rparr>
      in (s, [IoTo targetUserId (PrivateMessage m), SocketEmit sock (PrivateMessage m)]))"

text \<open>The \<^verbatim>\<open>chatrooms.forEach\<close> loop of the disconnect handler: the rooms after it and the
  member counts it emits, in iteration order.\<close>

fun disconnectRooms :: "sid \<Rightarrow> (string \<times> room) list \<Rightarrow> (string \<times> room) list \<times> emit list" where
  "disconnectRooms sock [] = ([], [])"
| "disconnectRooms sock ((chatroomId, room) # rest) =
     (let (rest', out) = disconnectRooms sock rest
      in if sock \<in> set (users room)
         then (let room' = room\<lparr>users := removeAll sock (users room)\<rparr>
               in ((chatroomId, room') # rest',
                   IoTo chatroomId (ChatroomUserCount (length (users room'))) # out))
         else ((chatroomId, room) # rest', out))"

definition disconnect :: "sid \<Rightarrow> server \<Rightarrow> server \<times> emit list" where
  "disconnect sock s =
     (let (rooms', out) = disconnectRooms sock (chatrooms s);
          users' = AList.delete sock (onlineUsers s)
      in (s\<lparr>chatrooms := rooms', onlineUsers := users'\<rparr>,
          out @ [IoEmit (OnlineCount (length users'))]))"

text \<open>The \<^verbatim>\<open>setInterval\<close> callback that runs every 60000 ms. It replaces the list and
  writes to the console only.\<close>

definition sweep :: "int \<Rightarrow> server \<Rightarrow> server \<times> emit list" where
  "sweep now s =
     (s\<lparr>allBubbles :=
          filter (\<lambda>b. if isPrivate b then True
                      else (let expireTime = createdAt b + duration b * 1000 in now < expireTime))
            (allBubbles s)\<rparr>,
      [])"

text \<open>What the event loop can run: a socket event with its payload and the environment
  values the handler reads, an armed timer firing, or a tick of the sweep.\<close>

datatype event =
    OnUserJoin sid user int int
  | OnPublishBubble sid bubble int string int
  | OnJoinChatroom sid string
  | OnChatroomMessage sid string string string string
  | OnLeaveChatroom sid string
  | OnPrivateMessage sid string string string string
  | OnDisconnect sid
  | OnTimeout key int
  | OnSweep int

fun step :: "event \<Rightarrow> server \<Rightarrow> server \<times> emit list" where
  "step (OnUserJoin sock userData joinNow now) s = userJoin sock userData joinNow now s"
| "step (OnPublishBubble sock bubbleData idNow rnd now) s = publishBubble sock bubbleData idNow rnd now s"
| "step (OnJoinChatroom sock chatroomId) s = joinChatroom sock chatroomId s"
| "step (OnChatroomMessage sock chatroomId message nick time) s =
     chatroomMessage sock chatroomId message nick time s"
| "step (OnLeaveChatroom sock chatroomId) s = leaveChatroom sock chatroomId s"
| "step (OnPrivateMessage sock targetUserId message nick time) s =
     privateMessage sock targetUserId message nick time s"
| "step (OnDisconnect sock) s = disconnect sock s"
| "step (OnTimeout bid delay) s =
     (if (bid, delay) \<in> set (timers s)
      then expiryTimer bid (s\<lparr>timers := remove1 (bid, delay) (timers s)\<rparr>)
      else (s, []))"
| "step (OnSweep now) s = sweep now s"

fun run :: "event list \<Rightarrow> server \<Rightarrow> server \<times> emit list" where
  "run [] s = (s, [])"
| "run (e # es) s =
     (let (s1, out1) = step e s; (s2, out2) = run es s1 in (s2, out1 @ out2))"

section \<open>The second variant\<close>

text \<open>The registry is keyed by the participant id the client announces; a room keeps the
  participant ids of its members and an unbounded message list; bubbles are stored as the
  client sent them; \<^verbatim>\<open>socket.userId\<close> is a property of each socket, \<^verbatim>\<open>undefined\<close> until
  the socket announces. There is no periodic sweep.\<close>

record chatroom =
  cr_messages :: "msgData list"
  members :: "key list"

record server2 =
  onlineUsers2 :: "(key \<times> user) list"
  allBubbles2 :: "bubble list"
  chatrooms2 :: "(string \<times> chatroom) list"
  friendChats :: "(string \<times> fmsg list) list"
  timers2 :: "(key \<times> int) list"
  userId :: "sid \<Rightarrow> key"

definition init2 :: server2 where
  "init2 = \<lparr>onlineUsers2 = [], allBubbles2 = [], chatrooms2 = [], friendChats = [],
            timers2 = [], userId = (\<lambda>_. Undefined)\<rparr>"

text \<open>
  Numbers of the second variant. The client's \<^verbatim>\<open>createdAt\<close> and \<^verbatim>\<open>duration\<close> are stored
  unchanged, and the filter computes with them in IEEE 754 double arithmetic. A number is
  an integer-valued double, an infinity or NaN. \<open>toDouble x\<close> is the double nearest to
  the integer \<open>x\<close>, ties to the even significand, infinite when the rounded magnitude
  reaches \<open>2 ^ 1024\<close>; it is what reading the integer literal \<open>x\<close> gives, and the sum and
  the product of two integer-valued doubles are \<open>toDouble\<close> of the exact sum and product.
  \<open>bitLength a\<close> is the number of binary digits of \<open>a\<close>, and \<open>roundedMagnitude a\<close>, for
  \<open>a\<close> from \<open>2 ^ 53\<close> on, is \<open>a\<close> rounded to 53 significant binary digits.
\<close>

datatype number = Fin int | PosInf | NegInf | NaN

fun bitLength :: "nat \<Rightarrow> nat" where
  "bitLength n = (if n = 0 then 0 else Suc (bitLength (n div 2)))"

declare bitLength.simps [simp del]

definition roundedMagnitude :: "nat \<Rightarrow> nat" where
  "roundedMagnitude a =
     (let e = bitLength a - 53;
          q = a div 2 ^ e;
          r = a mod 2 ^ e;
          q' = (if 2 ^ (e - 1) < r \<or> (r = 2 ^ (e - 1) \<and> odd q) then q + 1 else q)
      in q' * 2 ^ e)"

definition toDouble :: "int \<Rightarrow> number" where
  "toDouble x =
     (let a = nat \<bar>x\<bar>
      in if a < 2 ^ 53 then Fin x
         else (let m = roundedMagnitude a
               in if 2 ^ 1024 \<le> m then (if x < 0 then NegInf else PosInf)
                  else Fin (if x < 0 then - int m else int m)))"

fun jsAdd :: "number \<Rightarrow> number \<Rightarrow> number" where
  "jsAdd (Fin a) (Fin b) = toDouble (a + b)"
| "jsAdd NaN y = NaN"
| "jsAdd x NaN = NaN"
| "jsAdd PosInf NegInf = NaN"
| "jsAdd NegInf PosInf = NaN"
| "jsAdd PosInf y = PosInf"
| "jsAdd x PosInf = PosInf"
| "jsAdd NegInf y = NegInf"
| "jsAdd x NegInf = NegInf"

fun jsMul :: "number \<Rightarrow> number \<Rightarrow> number" where
  "jsMul (Fin a) (Fin b) = toDouble (a * b)"
| "jsMul NaN y = NaN"
| "jsMul x NaN = NaN"
| "jsMul PosInf (Fin b) = (if b = 0 then NaN else if 0 < b then PosInf else NegInf)"
| "jsMul NegInf (Fin b) = (if b = 0 then NaN else if 0 < b then NegInf else PosInf)"
| "jsMul (Fin a) PosInf = (if a = 0 then NaN else if 0 < a then PosInf else NegInf)"
| "jsMul (Fin a) NegInf = (if a = 0 then NaN else if 0 < a then NegInf else PosInf)"
| "jsMul PosInf PosInf = PosInf"
| "jsMul PosInf NegInf = NegInf"
| "jsMul NegInf PosInf = NegInf"
| "jsMul NegInf NegInf = PosInf"

fun jsGreater :: "number \<Rightarrow> number \<Rightarrow> bool" where
  "jsGreater (Fin a) (Fin b) = (b < a)"
| "jsGreater NaN y = False"
| "jsGreater x NaN = False"
| "jsGreater NegInf y = False"
| "jsGreater x PosInf = False"
| "jsGreater PosInf y = True"
| "jsGreater x NegInf = True"



definition userJoin2 :: "sid \<Rightarrow> user \<Rightarrow> server2 \<Rightarrow> server2 \<times> emit list" where
  "userJoin2 sock userData s =
     (let users' = AList.update (uid userData) (userData\<lparr>socketId := sock\<rparr>) (onlineUsers2 s)
      in (s\<lparr>onlineUsers2 := users', userId := (userId s)(sock := uid userData)\<rparr>,
          [IoEmit (OnlineCount (length users')), SocketEmit sock (AllBubbles (allBubbles2 s))]))"

definition expiryTimer2 :: "key \<Rightarrow> server2 \<Rightarrow> server2 \<times> emit list" where
  "expiryTimer2 bid s =
     (let index = findIndex (\<lambda>b. id' b = bid) (allBubbles2 s)
      in if index > - 1
         then (s\<lparr>allBubbles2 := splice1 index (allBubbles2 s)\<rparr>, [IoEmit (BubbleExpired bid)])
         else (s, []))"

definition publishBubble2 :: "sid \<Rightarrow> bubble \<Rightarrow> server2 \<Rightarrow> server2 \<times> emit list" where
  "publishBubble2 sock bubbleData s =
     (let s1 = s\<lparr>allBubbles2 := allBubbles2 s @ [bubbleData]\<rparr>
      in (if \<not> isPrivate bubbleData
          then s1\<lparr>timers2 := timers2 s1 @ [(id' bubbleData, duration bubbleData * 1000)]\<rparr>
          else s1,
          [IoEmit (NewBubble bubbleData)]))"

definition joinChatroom2 :: "sid \<Rightarrow> string \<Rightarrow> server2 \<Rightarrow> server2 \<times> emit list" where
  "joinChatroom2 sock chatroomId s =
     (let chatroom0 = (case map_of (chatrooms2 s) chatroomId of
                         None \<Rightarrow> \<lparr>cr_messages = [], members = []\<rparr>
                       | Some c \<Rightarrow> c);
          user = map_of (onlineUsers2 s) (userId s sock);
          chatroom = (if user \<noteq> None \<and> userId s sock \<notin> set (members chatroom0)
                      then chatroom0\<lparr>members := members chatroom0 @ [userId s sock]\<rparr>
                      else chatroom0)
      in (s\<lparr>chatrooms2 := AList.update chatroomId chatroom (chatrooms2 s)\<rparr>,
          [SocketEmit sock (ChatroomHistory2 (cr_messages chatroom)),
           IoTo chatroomId (ChatroomOnline (length (members chatroom)))]))"

definition chatroomMessage2 ::
  "sid \<Rightarrow> string \<Rightarrow> string \<Rightarrow> int \<Rightarrow> server2 \<Rightarrow> server2 \<times> emit list" where
  "chatroomMessage2 sock chatroomId message now s =
     (case map_of (onlineUsers2 s) (userId s sock) of
        None \<Rightarrow> (s, [])
      | Some user \<Rightarrow>
          (let m = \<lparr>md_nickname = nickname user, md_avatar = avatar user,
                     md_content = message, md_timestamp = now\<rparr>
           in ((case map_of (chatrooms2 s) chatroomId of
                  None \<Rightarrow> s
                | Some chatroom \<Rightarrow>
                    s\<lparr>chatrooms2 :=
                        AList.update chatroomId
                          (chatroom\<lparr>cr_messages := cr_messages chatroom @ [m]\<rparr>) (chatrooms2 s)\<rparr>),
               [IoTo chatroomId (ChatroomMessage2 m)])))"

definition leaveChatroom2 :: "sid \<Rightarrow> string \<Rightarrow> server2 \<Rightarrow> server2 \<times> emit list" where
  "leaveChatroom2 sock chatroomId s =
     (case map_of (chatrooms2 s) chatroomId of
        None \<Rightarrow> (s, [])
      | Some chatroom \<Rightarrow>
          (let index = findIndex (\<lambda>m. m = userId s sock) (members chatroom);
               chatroom' = (if index > - 1
                            then chatroom\<lparr>members := splice1 index (members chatroom)\<rparr>
                            else chatroom)
           in (s\<lparr>chatrooms2 := AList.update chatroomId chatroom' (chatrooms2 s)\<rparr>,
               [IoTo chatroomId (ChatroomOnline (length (members chatroom')))])))"

text \<open>\<^verbatim>\<open>[socket.userId, friendId].sort().join('_')\<close>: the default sort compares strings by
  code unit and puts \<^verbatim>\<open>undefined\<close> last; \<^verbatim>\<open>join\<close> writes \<^verbatim>\<open>undefined\<close> as the empty
  string.\<close>

fun keyString :: "key \<Rightarrow> string" where
  "keyString Undefined = []"
| "keyString (Key s) = s"

fun sortPair :: "key \<Rightarrow> key \<Rightarrow> key \<times> key" where
  "sortPair (Key a) (Key b) = (if b < a then (Key b, Key a) else (Key a, Key b))"
| "sortPair Undefined b = (b, Undefined)"
| "sortPair a Undefined = (a, Undefined)"

definition chatKey :: "key \<Rightarrow> key \<Rightarrow> string" where
  "chatKey a b = (let (x, y) = sortPair a b in keyString x @ ''_'' @ keyString y)"

definition friendMessage :: "sid \<Rightarrow> key \<Rightarrow> string \<Rightarrow> int \<Rightarrow> server2 \<Rightarrow> server2 \<times> emit list" where
  "friendMessage sock friendId message now s =
     (case map_of (onlineUsers2 s) (userId s sock) of
        None \<Rightarrow> (s, [])
      | Some user \<Rightarrow>
          (let k = chatKey (userId s sock) friendId;
               chat = (case map_of (friendChats s) k of None \<Rightarrow> [] | Some ms \<Rightarrow> ms);
               m = \<lparr>fm_from = userId s sock, fm_to = friendId, fm_nickname = nickname user,
                     fm_avatar = avatar user, fm_content = message, fm_timestamp = now\<rparr>
           in (s\<lparr>friendChats := AList.update k (chat @ [m]) (friendChats s)\<rparr>,
               (case map_of (onlineUsers2 s) friendId of
                  None \<Rightarrow> []
                | Some friend \<Rightarrow> [IoTo (socketId friend) (FriendMessage m)]))))"

text \<open>Truthiness of \<^verbatim>\<open>socket.userId\<close>: \<^verbatim>\<open>undefined\<close> and the empty string are falsy.\<close>

fun truthy :: "key \<Rightarrow> bool" where
  "truthy Undefined = False"
| "truthy (Key s) = (s \<noteq> [])"

definition disconnect2 :: "sid \<Rightarrow> server2 \<Rightarrow> server2 \<times> emit list" where
  "disconnect2 sock s =
     (let users' = (if truthy (userId s sock) then AList.delete (userId s sock) (onlineUsers2 s)
                    else onlineUsers2 s)
      in (s\<lparr>onlineUsers2 := users'\<rparr>, [IoEmit (OnlineCount (length users'))]))"

datatype event2 =
    OnUserJoin2 sid user
  | OnPublishBubble2 sid bubble
  | OnJoinChatroom2 sid string
  | OnChatroomMessage2 sid string string int
  | OnLeaveChatroom2 sid string
  | OnFriendMessage sid key string int
  | OnDisconnect2 sid
  | OnTimeout2 key int

fun step2 :: "event2 \<Rightarrow> server2 \<Rightarrow> server2 \<times> emit list" where
  "step2 (OnUserJoin2 sock userData) s = userJoin2 sock userData s"
| "step2 (OnPublishBubble2 sock bubbleData) s = publishBubble2 sock bubbleData s"
| "step2 (OnJoinChatroom2 sock chatroomId) s = joinChatroom2 sock chatroomId s"
| "step2 (OnChatroomMessage2 sock chatroomId message now) s =
     chatroomMessage2 sock chatroomId message now s"
| "step2 (OnLeaveChatroom2 sock chatroomId) s = leaveChatroom2 sock chatroomId s"
| "step2 (OnFriendMessage sock friendId message now) s = friendMessage sock friendId message now s"
| "step2 (OnDisconnect2 sock) s = disconnect2 sock s"
| "step2 (OnTimeout2 bid delay) s =
     (if (bid, delay) \<in> set (timers2 s)
      then expiryTimer2 bid (s\<lparr>timers2 := remove1 (bid, delay) (timers2 s)\<rparr>)
      else (s, []))"

fun run2 :: "event2 list \<Rightarrow> server2 \<Rightarrow> server2 \<times> emit list" where
  "run2 [] s = (s, [])"
| "run2 (e # es) s =
     (let (s1, out1) = step2 e s; (s2, out2) = run2 es s1 in (s2, out1 @ out2))"

section \<open>Example data\<close>

definition bubbleA :: bubble where
  "bubbleA = \<lparr>id' = Key ''a'', title = ''A'', author = ''u1'', createdAt = 1000,
               duration = 2, isPrivate = False\<rparr>"

definition bubbleP :: bubble where
  "bubbleP = \<lparr>id' = Key ''p'', title = ''P'', author = ''u1'', createdAt = 1000,
               duration = 2, isPrivate = True\<rparr>"

definition bubbleL :: bubble where
  "bubbleL = \<lparr>id' = Key ''l'', title = ''L'', author = ''u2'', createdAt = 1000,
               duration = 60, isPrivate = False\<rparr>"

definition userAnn :: user where
  "userAnn = \<lparr>uid = Key ''u1'', nickname = ''Ann'', avatar = ''ann.png'', socketId = [],
               joinTime = 0\<rparr>"

definition userBob :: user where
  "userBob = \<lparr>uid = Key ''u2'', nickname = ''Bob'', avatar = ''bob.png'', socketId = [],
               joinTime = 0\<rparr>"


definition bubbleQ :: bubble where
  "bubbleQ = \<lparr>id' = Key ''a'', title = ''Q'', author = ''u2'', createdAt = 0,
               duration = 1, isPrivate = True\<rparr>"



section \<open>Observations on a state\<close>

text \<open>The message history of a room (empty when the room does not exist), in both
  variants, and the last \<open>n\<close> elements of a list.\<close>

definition history :: "server \<Rightarrow> string \<Rightarrow> msg list" where
  "history s chatroomId =
     (case map_of (chatrooms s) chatroomId of None \<Rightarrow> [] | Some r \<Rightarrow> messages r)"

definition history2 :: "server2 \<Rightarrow> string \<Rightarrow> msgData list" where
  "history2 s chatroomId =
     (case map_of (chatrooms2 s) chatroomId of None \<Rightarrow> [] | Some c \<Rightarrow> cr_messages c)"

definition historyBounded :: "server \<Rightarrow> bool" where
  "historyBounded s = list_all (\<lambda>(c, r). length (messages r) \<le> 100) (chatrooms s)"

definition lastN :: "nat \<Rightarrow> 'a list \<Rightarrow> 'a list" where
  "lastN n xs = drop (length xs - n) xs"

text \<open>A post to a room as an event of the loop, and the record the handler builds for
  it: in \<^verbatim>\<open>server.js\<close> from the client's nickname and the formatted time, in the second
  variant from the sender's registry record and the clock.\<close>

definition roomPost :: "string \<Rightarrow> sid \<times> string \<times> string \<times> string \<Rightarrow> event" where
  "roomPost c x = (case x of (sock, m, n, t) \<Rightarrow> OnChatroomMessage sock c m n t)"

definition postedMsg :: "sid \<times> string \<times> string \<times> string \<Rightarrow> msg" where
  "postedMsg x =
     (case x of (sock, m, n, t) \<Rightarrow> \<lparr>msg_nickname = n, msg_content = m, msg_time = t\<rparr>)"

definition roomPost2 :: "sid \<Rightarrow> string \<Rightarrow> string \<times> int \<Rightarrow> event2" where
  "roomPost2 sock c x = (case x of (m, now) \<Rightarrow> OnChatroomMessage2 sock c m now)"

definition postedMsg2 :: "user \<Rightarrow> string \<times> int \<Rightarrow> msgData" where
  "postedMsg2 u x =
     (case x of (m, now) \<Rightarrow>
        \<lparr>md_nickname = nickname u, md_avatar = avatar u, md_content = m, md_timestamp = now\<rparr>)"



section \<open>Assumptions on the environment\<close>



text \<open>The events of a run of the second variant that can change the registry record of
  participant \<open>p\<close>: an announce of \<open>p\<close>, and the disconnect of a connection whose
  \<^verbatim>\<open>socket.userId\<close> is \<open>p\<close> (and truthy). A run leaves \<open>p\<close> untouched when it has no such
  event. An event fires for an identifier when it is the callback of a timer armed for
  it.\<close>

fun touches :: "key \<Rightarrow> event2 \<Rightarrow> server2 \<Rightarrow> bool" where
  "touches p (OnUserJoin2 sock userData) s = (uid userData = p)"
| "touches p (OnDisconnect2 sock) s = (truthy (userId s sock) \<and> userId s sock = p)"
| "touches p e s = False"

fun untouched :: "key \<Rightarrow> event2 list \<Rightarrow> server2 \<Rightarrow> bool" where
  "untouched p [] s = True"
| "untouched p (e # es) s = (\<not> touches p e s \<and> untouched p es (fst (step2 e s)))"


section \<open>Auxiliary facts\<close>

lemma list_all_update:
  "list_all P al \<Longrightarrow> P (k, v) \<Longrightarrow> list_all P (AList.update k v al)"
  by (induction al) auto

lemma list_all_map_of:
  "list_all P al \<Longrightarrow> map_of al k = Some v \<Longrightarrow> P (k, v)"
  by (auto simp: list_all_iff dest: map_of_SomeD)

lemma map_of_update_same: "map_of (AList.update k v al) k = Some v"
  by (simp add: update_conv')

lemma map_of_update_other: "k' \<noteq> k \<Longrightarrow> map_of (AList.update k v al) k' = map_of al k'"
  by (simp add: update_conv')

lemma length_update_present:
  "map_of al k = Some v' \<Longrightarrow> length (AList.update k v al) = length al"
  by (induction al) (auto split: if_splits)

lemma length_update_absent:
  "map_of al k = None \<Longrightarrow> length (AList.update k v al) = Suc (length al)"
  by (induction al) (auto split: if_splits)

lemma fst_run_Cons: "fst (run (e # es) s) = fst (run es (fst (step e s)))"
  by (simp add: split_beta)

lemma fst_run2_Cons: "fst (run2 (e # es) s) = fst (run2 es (fst (step2 e s)))"
  by (simp add: split_beta)

lemma snd_run2_Cons: "snd (run2 (e # es) s) = snd (step2 e s) @ snd (run2 es (fst (step2 e s)))"
  by (simp add: split_beta)

lemma lastN_short: "length xs \<le> n \<Longrightarrow> lastN n xs = xs"
  by (simp add: lastN_def)

lemma length_lastN: "length (lastN n xs) \<le> n"
  by (simp add: lastN_def)

lemma lastN_lastN_append: "lastN n (lastN n xs @ ys) = lastN n (xs @ ys)"
  by (cases "length xs \<le> n") (auto simp: lastN_def add.commute)

subsection \<open>The disconnect loop over the rooms\<close>

lemma disconnectRooms_fst:
  "fst (disconnectRooms sock rs) =
     map (\<lambda>(c, r). (c, r\<lparr>users := removeAll sock (users r)\<rparr>)) rs"
  by (induction rs) (auto simp: Let_def split_beta)

lemma disconnectRooms_snd:
  "snd (disconnectRooms sock rs) =
     map (\<lambda>(c, r). IoTo c (ChatroomUserCount (length (removeAll sock (users r)))))
       (filter (\<lambda>(c, r). sock \<in> set (users r)) rs)"
  by (induction rs) (auto simp: Let_def split_beta)

subsection \<open>The history bound is kept by every step of server.js\<close>

lemma historyBounded_userJoin:
  "historyBounded s \<Longrightarrow> historyBounded (fst (userJoin sock ud jn now s))"
  by (simp add: historyBounded_def userJoin_def Let_def)

lemma historyBounded_publishBubble:
  "historyBounded s \<Longrightarrow> historyBounded (fst (publishBubble sock bd idNow rnd now s))"
  by (simp add: historyBounded_def publishBubble_def Let_def)

lemma historyBounded_joinChatroom:
  "historyBounded s \<Longrightarrow> historyBounded (fst (joinChatroom sock c s))"
  unfolding historyBounded_def joinChatroom_def Let_def
  by (cases "map_of (chatrooms s) c")
     (auto intro!: list_all_update dest: list_all_map_of)

lemma historyBounded_chatroomMessage:
  "historyBounded s \<Longrightarrow> historyBounded (fst (chatroomMessage sock c m n t s))"
  unfolding historyBounded_def chatroomMessage_def Let_def
  by (cases "map_of (chatrooms s) c")
     (auto intro!: list_all_update dest: list_all_map_of)

lemma historyBounded_leaveChatroom:
  "historyBounded s \<Longrightarrow> historyBounded (fst (leaveChatroom sock c s))"
  unfolding historyBounded_def leaveChatroom_def Let_def
  by (cases "map_of (chatrooms s) c")
     (auto intro!: list_all_update dest: list_all_map_of)

lemma historyBounded_disconnect:
  "historyBounded s \<Longrightarrow> historyBounded (fst (disconnect sock s))"
proof -
  assume "historyBounded s"
  then have "list_all (\<lambda>(c, r). length (messages r) \<le> 100)
               (fst (disconnectRooms sock (chatrooms s)))"
    by (auto simp: historyBounded_def disconnectRooms_fst list_all_iff)
  then show ?thesis
    by (simp add: historyBounded_def disconnect_def Let_def split_beta)
qed

lemma historyBounded_expiryTimer:
  "historyBounded s \<Longrightarrow> historyBounded (fst (expiryTimer bid s))"
  by (simp add: historyBounded_def expiryTimer_def Let_def)

lemma historyBounded_privateMessage:
  "historyBounded s \<Longrightarrow> historyBounded (fst (privateMessage sock tgt m n t s))"
  by (simp add: privateMessage_def Let_def)

lemma historyBounded_sweep:
  "historyBounded s \<Longrightarrow> historyBounded (fst (sweep now s))"
  by (simp add: historyBounded_def sweep_def)

lemma historyBounded_step:
  "historyBounded s \<Longrightarrow> historyBounded (fst (step e s))"
proof (cases e)
  case (OnTimeout bid delay)
  assume h: "historyBounded s"
  then have "historyBounded (s\<lparr>timers := remove1 (bid, delay) (timers s)\<rparr>)"
    by (simp add: historyBounded_def)
  then show ?thesis using h OnTimeout
    by (simp add: historyBounded_expiryTimer)
qed (simp_all add: historyBounded_userJoin historyBounded_publishBubble
      historyBounded_joinChatroom historyBounded_chatroomMessage
      historyBounded_leaveChatroom historyBounded_disconnect
      historyBounded_privateMessage historyBounded_sweep)

lemma historyBounded_run:
  "historyBounded s \<Longrightarrow> historyBounded (fst (run es s))"
proof (induction es arbitrary: s)
  case Nil
  then show ?case by simp
next
  case (Cons e es)
  from Cons.prems have "historyBounded (fst (step e s))"
    by (rule historyBounded_step)
  then have "historyBounded (fst (run es (fst (step e s))))"
    by (rule Cons.IH)
  then show ?case by (simp add: split_beta)
qed

lemma historyBounded_init: "historyBounded init"
  by (simp add: historyBounded_def init_def)

lemma historyBounded_history:
  "historyBounded s \<Longrightarrow> length (history s c) \<le> 100"
  by (cases "map_of (chatrooms s) c")
     (auto simp: history_def historyBounded_def dest: list_all_map_of)

subsection \<open>Posting a sequence of messages to one room\<close>

lemma chatroomMessage_history:
  assumes "map_of (chatrooms s) c = Some r" and "length (messages r) \<le> 100"
  shows "map_of (chatrooms (fst (chatroomMessage sock c m n t s))) c =
           Some (r\<lparr>messages := lastN 100 (messages r @ [postedMsg (sock, m, n, t)])\<rparr>)"
proof (cases "length (messages r) = 100")
  case True
  then have ne: "messages r \<noteq> []" by auto
  from True have "lastN 100 (messages r @ [postedMsg (sock, m, n, t)]) =
             tl (messages r @ [postedMsg (sock, m, n, t)])"
    by (simp add: lastN_def drop_Suc ne)
  with True assms show ?thesis
    by (simp add: chatroomMessage_def Let_def map_of_update_same postedMsg_def)
next
  case False
  with assms have "length (messages r) < 100" by simp
  then have "lastN 100 (messages r @ [postedMsg (sock, m, n, t)]) =
             messages r @ [postedMsg (sock, m, n, t)]"
    by (simp add: lastN_def)
  with False assms show ?thesis
    by (simp add: chatroomMessage_def Let_def map_of_update_same postedMsg_def)
qed

lemma post_many:
  assumes "map_of (chatrooms s) c = Some r" and "length (messages r) \<le> 100"
  shows "map_of (chatrooms (fst (run (map (roomPost c) xs) s))) c =
           Some (r\<lparr>messages := lastN 100 (messages r @ map postedMsg xs)\<rparr>)"
  using assms
proof (induction xs arbitrary: s r)
  case Nil
  then show ?case by (simp add: lastN_short)
next
  case (Cons x xs)
  obtain sock m n t where x: "x = (sock, m, n, t)" by (cases x) auto
  let ?r1 = "r\<lparr>messages := lastN 100 (messages r @ [postedMsg x])\<rparr>"
  let ?s1 = "fst (step (roomPost c x) s)"
  have r1: "map_of (chatrooms ?s1) c = Some ?r1"
    using chatroomMessage_history [OF Cons.prems, of sock m n t] by (simp add: x roomPost_def)
  have len: "length (messages ?r1) \<le> 100"
    by (simp add: length_lastN)
  have "map_of (chatrooms (fst (run (map (roomPost c) xs) ?s1))) c =
          Some (?r1\<lparr>messages := lastN 100 (messages ?r1 @ map postedMsg xs)\<rparr>)"
    using r1 len by (rule Cons.IH)
  moreover have "lastN 100 (messages ?r1 @ map postedMsg xs) =
                 lastN 100 (messages r @ map postedMsg (x # xs))"
    using lastN_lastN_append [of 100 "messages r @ [postedMsg x]" "map postedMsg xs"] by simp
  ultimately show ?case
    by (simp add: split_beta)
qed

lemma chatroomMessage2_history:
  assumes "map_of (onlineUsers2 s) (userId s sock) = Some u"
    and "map_of (chatrooms2 s) c = Some r"
  shows "map_of (chatrooms2 (fst (chatroomMessage2 sock c m now s))) c =
           Some (r\<lparr>cr_messages := cr_messages r @ [postedMsg2 u (m, now)]\<rparr>)
         \<and> onlineUsers2 (fst (chatroomMessage2 sock c m now s)) = onlineUsers2 s
         \<and> userId (fst (chatroomMessage2 sock c m now s)) = userId s"
  using assms by (simp add: chatroomMessage2_def Let_def map_of_update_same postedMsg2_def)

lemma post_many2:
  assumes "map_of (onlineUsers2 s) (userId s sock) = Some u"
    and "map_of (chatrooms2 s) c = Some r"
  shows "map_of (chatrooms2 (fst (run2 (map (roomPost2 sock c) xs) s))) c =
           Some (r\<lparr>cr_messages := cr_messages r @ map (postedMsg2 u) xs\<rparr>)"
  using assms
proof (induction xs arbitrary: s r)
  case Nil
  then show ?case by simp
next
  case (Cons x xs)
  obtain m now where x: "x = (m, now)" by (cases x) auto
  let ?s1 = "fst (step2 (roomPost2 sock c x) s)"
  from chatroomMessage2_history [OF Cons.prems, of m now]
  have r1: "map_of (chatrooms2 ?s1) c = Some (r\<lparr>cr_messages := cr_messages r @ [postedMsg2 u x]\<rparr>)"
    and u1: "map_of (onlineUsers2 ?s1) (userId ?s1 sock) = Some u"
    using Cons.prems(1) by (simp_all add: x roomPost2_def)
  from Cons.IH [OF u1 r1] show ?case
    by (simp add: split_beta)
qed

subsection \<open>Expiry events come from armed timers\<close>














subsection \<open>Generated identifiers determine the clock value and the random suffix\<close>

lemma digit_in_digits: "i < 10 \<Longrightarrow> ''0123456789'' ! i \<in> set ''0123456789''"
  by (rule nth_mem) simp

lemma digit_inj:
  "i < 10 \<Longrightarrow> j < 10 \<Longrightarrow> ''0123456789'' ! i = ''0123456789'' ! j \<Longrightarrow> i = j"
  using nth_eq_iff_index_eq [of "''0123456789''" i j] by simp

lemma decimal_nonempty: "decimal n \<noteq> []"
  by (simp add: decimal.simps [of n])

lemma decimal_digits: "set (decimal n) \<subseteq> set ''0123456789''"
proof (induction n rule: decimal.induct)
  case (1 n)
  show ?case
  proof (cases "n < 10")
    case True
    then have "decimal n = [''0123456789'' ! n]"
      by (simp add: decimal.simps [of n])
    with digit_in_digits [OF True] show ?thesis by simp
  next
    case False
    then have eq: "decimal n = decimal (n div 10) @ [''0123456789'' ! (n mod 10)]"
      by (simp add: decimal.simps [of n])
    have "''0123456789'' ! (n mod 10) \<in> set ''0123456789''"
      by (rule digit_in_digits) simp
    with 1 [OF False] eq show ?thesis by simp
  qed
qed

lemma decimal_inj: "decimal n = decimal m \<Longrightarrow> n = m"
proof (induction n arbitrary: m rule: decimal.induct)
  case (1 n)
  show ?case
  proof (cases "n < 10")
    case n: True
    then have dn: "decimal n = [''0123456789'' ! n]"
      by (simp add: decimal.simps [of n])
    show ?thesis
    proof (cases "m < 10")
      case True
      then have "decimal m = [''0123456789'' ! m]"
        by (simp add: decimal.simps [of m])
      with dn "1.prems" have "''0123456789'' ! n = ''0123456789'' ! m" by simp
      with n True show ?thesis by (rule digit_inj)
    next
      case False
      then have "decimal m = decimal (m div 10) @ [''0123456789'' ! (m mod 10)]"
        by (simp add: decimal.simps [of m])
      with dn "1.prems" have "decimal (m div 10) = []" by simp
      with decimal_nonempty show ?thesis by blast
    qed
  next
    case n: False
    then have dn: "decimal n = decimal (n div 10) @ [''0123456789'' ! (n mod 10)]"
      by (simp add: decimal.simps [of n])
    show ?thesis
    proof (cases "m < 10")
      case True
      then have "decimal m = [''0123456789'' ! m]"
        by (simp add: decimal.simps [of m])
      with dn "1.prems" have "decimal (n div 10) = []" by simp
      with decimal_nonempty show ?thesis by blast
    next
      case False
      then have "decimal m = decimal (m div 10) @ [''0123456789'' ! (m mod 10)]"
        by (simp add: decimal.simps [of m])
      with dn "1.prems" have pre: "decimal (n div 10) = decimal (m div 10)"
        and lst: "''0123456789'' ! (n mod 10) = ''0123456789'' ! (m mod 10)"
        by simp_all
      from pre have d: "n div 10 = m div 10" by (rule "1.IH" [OF n])
      from lst have r: "n mod 10 = m mod 10" by (intro digit_inj) simp_all
      from d r show ?thesis by (metis div_mult_mod_eq)
    qed
  qed
qed

lemma numberToString_chars:
  "CHR ''_'' \<notin> set (numberToString i)"
  using decimal_digits [of "nat i"] decimal_digits [of "nat (- i)"]
  by (auto simp: numberToString_def)

lemma numberToString_inj: "numberToString i = numberToString j \<Longrightarrow> i = j"
proof -
  assume eq: "numberToString i = numberToString j"
  have no_minus: "\<And>n. hd (decimal n) \<noteq> CHR ''-''"
  proof -
    fix n
    have "hd (decimal n) \<in> set (decimal n)"
      by (simp add: decimal_nonempty)
    with decimal_digits [of n] show "hd (decimal n) \<noteq> CHR ''-''" by auto
  qed
  show "i = j"
  proof (cases "i < 0")
    case i: True
    show ?thesis
    proof (cases "j < 0")
      case True
      with i eq have "decimal (nat (- i)) = decimal (nat (- j))"
        by (simp add: numberToString_def)
      then have "nat (- i) = nat (- j)" by (rule decimal_inj)
      with i True show ?thesis by simp
    next
      case False
      with i eq have "CHR ''-'' # decimal (nat (- i)) = decimal (nat j)"
        unfolding numberToString_def by (simp only: if_True if_False)
      then have "hd (decimal (nat j)) = CHR ''-''"
        by (metis list.sel(1))
      with no_minus show ?thesis by blast
    qed
  next
    case i: False
    show ?thesis
    proof (cases "j < 0")
      case True
      with i eq have "decimal (nat i) = CHR ''-'' # decimal (nat (- j))"
        unfolding numberToString_def by (simp only: if_True if_False)
      then have "hd (decimal (nat i)) = CHR ''-''"
        by (metis list.sel(1))
      with no_minus show ?thesis by blast
    next
      case False
      with i eq have "decimal (nat i) = decimal (nat j)"
        by (simp add: numberToString_def)
      then have "nat i = nat j" by (rule decimal_inj)
      with i False show ?thesis by simp
    qed
  qed
qed

lemma split_at_first:
  "x \<notin> set a \<Longrightarrow> x \<notin> set a' \<Longrightarrow> a @ x # r = a' @ x # r' \<Longrightarrow> a = a' \<and> r = r'"
proof (induction a arbitrary: a')
  case Nil
  then show ?case by (cases a') auto
next
  case (Cons y a)
  then show ?case by (cases a') auto
qed

lemma bubbleIdentifier_inj:
  "bubbleIdentifier t r = bubbleIdentifier t' r' \<longleftrightarrow> t = t' \<and> r = r'"
proof
  assume "bubbleIdentifier t r = bubbleIdentifier t' r'"
  then have eq: "numberToString t @ CHR ''_'' # r = numberToString t' @ CHR ''_'' # r'"
    by (simp add: bubbleIdentifier_def)
  have ab: "numberToString t = numberToString t' \<and> r = r'"
    by (rule split_at_first [OF numberToString_chars numberToString_chars eq])
  then have "t = t'" by (intro numberToString_inj) (rule conjunct1)
  with ab show "t = t' \<and> r = r'" by simp
qed simp

subsection \<open>A registry record stands while no event touches it\<close>

lemma untouched_step:
  assumes "\<not> touches p e s"
  shows "map_of (onlineUsers2 (fst (step2 e s))) p = map_of (onlineUsers2 s) p"
proof (cases e)
  case (OnUserJoin2 sock ud)
  with assms show ?thesis
    by (simp add: userJoin2_def Let_def map_of_update_other)
next
  case (OnDisconnect2 sock)
  with assms show ?thesis
    by (auto simp: disconnect2_def Let_def)
next
  case (OnTimeout2 bid delay)
  then show ?thesis
    by (simp add: expiryTimer2_def Let_def)
qed (simp_all add: publishBubble2_def joinChatroom2_def chatroomMessage2_def
      leaveChatroom2_def friendMessage_def Let_def split: option.splits)

lemma untouched_run:
  "untouched p es s \<Longrightarrow> map_of (onlineUsers2 (fst (run2 es s))) p = map_of (onlineUsers2 s) p"
proof (induction es arbitrary: s)
  case Nil
  then show ?case by simp
next
  case (Cons e es)
  then have "map_of (onlineUsers2 (fst (run2 es (fst (step2 e s))))) p =
             map_of (onlineUsers2 (fst (step2 e s))) p"
    by simp
  also have "\<dots> = map_of (onlineUsers2 s) p"
    using Cons.prems by (simp add: untouched_step)
  finally show ?case by (simp only: fst_run2_Cons)
qed

subsection \<open>A stored bubble stays stored until its own timer or a late sweep\<close>







subsection \<open>Double arithmetic is exact below the 53rd power of two\<close>

lemma toDouble_exact: "\<bar>x\<bar> < 2 ^ 53 \<Longrightarrow> toDouble x = Fin x"
  by (simp add: toDouble_def Let_def nat_less_iff)


subsection \<open>With clock readings the double comparison is the integer comparison\<close>

text \<open>In \<^verbatim>\<open>server.js\<close> the filters add a client's duration to a reading of the clock and
  compare with another reading. Readings of the clock are non-negative and below
  \<open>2 ^ 53\<close>; for such readings and every duration that is a double, the comparison in
  double arithmetic has the value of the comparison over the integers, which is why the
  filters of \<^verbatim>\<open>server.js\<close> are written over the integers.\<close>

lemma bitLength_bounds: "0 < n \<Longrightarrow> 2 ^ (bitLength n - 1) \<le> n \<and> n < 2 ^ bitLength n"
proof (induction n rule: bitLength.induct)
  case (1 n)
  show ?case
  proof (cases "n div 2 = 0")
    case True
    with "1.prems" have "n = 1" by (simp add: div_eq_0_iff)
    then show ?thesis by (simp add: bitLength.simps)
  next
    case False
    then have pos: "0 < n div 2" by simp
    from "1.prems" have neq: "n \<noteq> 0" by simp
    from "1.IH" [OF neq pos]
    have lo: "2 ^ (bitLength (n div 2) - 1) \<le> n div 2" and hi: "n div 2 < 2 ^ bitLength (n div 2)"
      by simp_all
    from pos have bl: "0 < bitLength (n div 2)"
      by (simp add: bitLength.simps [of "n div 2"])
    have unfold: "bitLength n = Suc (bitLength (n div 2))"
      using neq by (simp add: bitLength.simps [of n])
    from bl have "(2::nat) ^ bitLength (n div 2) = 2 * 2 ^ (bitLength (n div 2) - 1)"
      by (cases "bitLength (n div 2)") simp_all
    with lo have "2 ^ bitLength (n div 2) \<le> 2 * (n div 2)" by simp
    also have "\<dots> \<le> n" by simp
    finally have lower: "2 ^ (bitLength n - 1) \<le> n" by (simp add: unfold)
    from hi have "n < 2 * 2 ^ bitLength (n div 2)" by arith
    then have upper: "n < 2 ^ bitLength n" by (simp add: unfold)
    from lower upper show ?thesis by simp
  qed
qed

lemma rounded_lower:
  assumes k: "0 < k" "k < bl" and lo: "(2::nat) ^ (bl - 1) \<le> a"
  shows "2 ^ k \<le> (a div 2 ^ (bl - k)) * 2 ^ (bl - k)"
proof -
  let ?e = "bl - k"
  from k have split: "bl - 1 = (k - 1) + ?e" by simp
  have "(2::nat) ^ (k - 1) = (2 ^ (k - 1) * 2 ^ ?e) div 2 ^ ?e" by simp
  also have "\<dots> \<le> a div 2 ^ ?e"
    using lo by (intro div_le_mono) (simp only: split power_add)
  finally have q: "2 ^ (k - 1) \<le> a div 2 ^ ?e" .
  from k have "(2::nat) ^ 1 \<le> 2 ^ ?e" by (intro power_increasing) simp_all
  then have e: "2 \<le> (2::nat) ^ ?e" by simp
  from k have "(2::nat) ^ k = 2 ^ (k - 1) * 2" by (cases k) simp_all
  also have "\<dots> \<le> (a div 2 ^ ?e) * 2 ^ ?e"
    using q e by (rule mult_le_mono)
  finally show ?thesis .
qed

lemma roundedMagnitude_lower:
  assumes big: "2 ^ 53 \<le> a"
  shows "2 ^ 53 \<le> roundedMagnitude a"
proof -
  let ?e = "bitLength a - 53"
  from big have pos: "0 < a" by (rule less_le_trans [rotated]) simp
  from bitLength_bounds [OF pos] have lo: "2 ^ (bitLength a - 1) \<le> a" and hi: "a < 2 ^ bitLength a"
    by simp_all
  have bl: "53 < bitLength a"
  proof (rule ccontr)
    assume "\<not> 53 < bitLength a"
    then have "bitLength a \<le> 53" by simp
    then have "(2::nat) ^ bitLength a \<le> 2 ^ 53" by (intro power_increasing) simp_all
    with hi have "a < 2 ^ 53" by (rule less_le_trans)
    with big show False by simp
  qed
  have base: "2 ^ 53 \<le> (a div 2 ^ ?e) * 2 ^ ?e"
    by (rule rounded_lower [OF _ bl lo]) simp
  have "(a div 2 ^ ?e) * 2 ^ ?e \<le> (a div 2 ^ ?e + 1) * 2 ^ ?e"
    by (intro mult_le_mono1) simp
  with base have up: "2 ^ 53 \<le> (a div 2 ^ ?e + 1) * 2 ^ ?e" by (rule le_trans)
  show ?thesis
    unfolding roundedMagnitude_def Let_def
    by (rule if_split [THEN iffD2]) (use base up in blast)
qed

lemma toDouble_large:
  assumes "2 ^ 53 \<le> x"
  shows "toDouble x = PosInf \<or> (\<exists>y. toDouble x = Fin y \<and> 2 ^ 53 \<le> y)"
proof -
  have "(0::int) \<le> 2 ^ 53" by simp
  with assms have nonneg: "0 \<le> x" by (rule order_trans [rotated])
  then have pos: "\<not> x < 0" by simp
  from assms nonneg have big: "2 ^ 53 \<le> nat \<bar>x\<bar>" by (simp add: le_nat_iff)
  then have notsmall: "\<not> nat \<bar>x\<bar> < 2 ^ 53" by simp
  from roundedMagnitude_lower [OF big] have "int (2 ^ 53) \<le> int (roundedMagnitude (nat \<bar>x\<bar>))"
    by (simp only: of_nat_le_iff)
  then have m: "2 ^ 53 \<le> int (roundedMagnitude (nat \<bar>x\<bar>))" by simp
  show ?thesis
  proof (cases "2 ^ 1024 \<le> roundedMagnitude (nat \<bar>x\<bar>)")
    case True
    with pos notsmall have "toDouble x = PosInf"
      unfolding toDouble_def Let_def by (simp only: if_False if_True)
    then show ?thesis by blast
  next
    case False
    with pos notsmall have "toDouble x = Fin (int (roundedMagnitude (nat \<bar>x\<bar>)))"
      unfolding toDouble_def Let_def by (simp only: if_False if_True)
    with m show ?thesis by blast
  qed
qed

lemma toDouble_small:
  assumes "x \<le> - (2 ^ 53)"
  shows "toDouble x = NegInf \<or> (\<exists>y. toDouble x = Fin y \<and> y \<le> - (2 ^ 53))"
proof -
  have "- (2 ^ 53) < (0::int)" by simp
  with assms have neg: "x < 0" by (rule le_less_trans)
  with assms have big: "2 ^ 53 \<le> nat \<bar>x\<bar>" by (simp add: le_nat_iff)
  then have notsmall: "\<not> nat \<bar>x\<bar> < 2 ^ 53" by simp
  from roundedMagnitude_lower [OF big] have "int (2 ^ 53) \<le> int (roundedMagnitude (nat \<bar>x\<bar>))"
    by (simp only: of_nat_le_iff)
  then have m: "- int (roundedMagnitude (nat \<bar>x\<bar>)) \<le> - (2 ^ 53)" by simp
  show ?thesis
  proof (cases "2 ^ 1024 \<le> roundedMagnitude (nat \<bar>x\<bar>)")
    case True
    with neg notsmall have "toDouble x = NegInf"
      unfolding toDouble_def Let_def by (simp only: if_False if_True)
    then show ?thesis by blast
  next
    case False
    with neg notsmall have "toDouble x = Fin (- int (roundedMagnitude (nat \<bar>x\<bar>)))"
      unfolding toDouble_def Let_def by (simp only: if_False if_True)
    with m show ?thesis by blast
  qed
qed

lemma clock_comparison_exact:
  assumes c: "0 \<le> c" "c < 2 ^ 53" and n: "0 \<le> now" "now < 2 ^ 53"
    and d: "toDouble d = Fin d"
  shows "jsGreater (jsAdd (toDouble c) (jsMul (toDouble d) (Fin 1000))) (toDouble now)
           \<longleftrightarrow> now < c + d * 1000"
proof -
  from c have tc: "toDouble c = Fin c" by (intro toDouble_exact) simp
  from n have tn: "toDouble now = Fin now" by (intro toDouble_exact) simp
  have greater_large: "jsGreater (toDouble x) (Fin now)" if "2 ^ 53 \<le> x" for x
    using toDouble_large [OF that] n by auto
  have not_greater_neg: "\<not> jsGreater (toDouble x) (Fin now)" if "x < 0" for x
  proof (cases "- (2 ^ 53) < x")
    case True
    with that have "toDouble x = Fin x" by (intro toDouble_exact) simp
    with that n show ?thesis by simp
  next
    case False
    then have "x \<le> - (2 ^ 53)" by simp
    from toDouble_small [OF this] n show ?thesis by auto
  qed
  consider (mid) "\<bar>d * 1000\<bar> < 2 ^ 53" | (high) "2 ^ 53 \<le> d * 1000" | (low) "d * 1000 \<le> - (2 ^ 53)"
    by linarith
  then show ?thesis
  proof cases
    case mid
    then have p: "toDouble (d * 1000) = Fin (d * 1000)" by (rule toDouble_exact)
    show ?thesis
    proof (cases "c + d * 1000 < 2 ^ 53")
      case True
      with mid c have "\<bar>c + d * 1000\<bar> < 2 ^ 53" by simp
      then have "toDouble (c + d * 1000) = Fin (c + d * 1000)" by (rule toDouble_exact)
      then show ?thesis by (simp add: tc tn d p)
    next
      case False
      then have big: "2 ^ 53 \<le> c + d * 1000" by simp
      from greater_large [OF big] big n show ?thesis by (simp add: tc tn d p)
    qed
  next
    case high
    from toDouble_large [OF high] show ?thesis
    proof
      assume "toDouble (d * 1000) = PosInf"
      with high c n show ?thesis by (simp add: tc tn d)
    next
      assume "\<exists>y. toDouble (d * 1000) = Fin y \<and> 2 ^ 53 \<le> y"
      then obtain y where y: "toDouble (d * 1000) = Fin y" "2 ^ 53 \<le> y" by blast
      with c have "2 ^ 53 \<le> c + y" by simp
      from greater_large [OF this] y high c n show ?thesis by (simp add: tc tn d)
    qed
  next
    case low
    from toDouble_small [OF low] show ?thesis
    proof
      assume "toDouble (d * 1000) = NegInf"
      with low c n show ?thesis by (simp add: tc tn d)
    next
      assume "\<exists>y. toDouble (d * 1000) = Fin y \<and> y \<le> - (2 ^ 53)"
      then obtain y where y: "toDouble (d * 1000) = Fin y" "y \<le> - (2 ^ 53)" by blast
      with c have "c + y < 0" by simp
      from not_greater_neg [OF this] y low c n show ?thesis by (simp add: tc tn d)
    qed
  qed
qed

section \<open>Room history\<close>

text \<open>
  Claim C6, as the code has it. In \<^verbatim>\<open>server.js\<close> no run of the server from its initial
  state leaves more than 100 records in the history of any room; posting a sequence of
  messages to a room leaves the last 100 of the old history followed by the new records,
  so a post to a full room evicts the oldest record and 101 posts to an empty room leave
  the last 100 of them. In the second variant the handler only appends: a room's history
  after a sequence of accepted posts is the old history followed by all the new records.
\<close>

theorem history_capacity:
  "length (history (fst (run es init)) c) \<le> 100
   \<and> (map_of (chatrooms s) c = Some r \<and> length (messages r) \<le> 100 \<longrightarrow>
        history (fst (run (map (roomPost c) xs) s)) c =
          lastN 100 (messages r @ map postedMsg xs))
   \<and> (map_of (chatrooms s) c = Some r \<and> length (messages r) = 100 \<longrightarrow>
        history (fst (chatroomMessage sock c m n t s)) c =
          tl (messages r) @ [postedMsg (sock, m, n, t)])
   \<and> (map_of (chatrooms s) c = Some r \<and> messages r = [] \<and> length xs = 101 \<longrightarrow>
        history (fst (run (map (roomPost c) xs) s)) c = map postedMsg (tl xs))
   \<and> (map_of (onlineUsers2 s') (userId s' sock) = Some u \<and> map_of (chatrooms2 s') c = Some r' \<longrightarrow>
        history2 (fst (run2 (map (roomPost2 sock c) ys) s')) c =
          cr_messages r' @ map (postedMsg2 u) ys)"
proof -
  have bound: "length (history (fst (run es init)) c) \<le> 100"
    by (rule historyBounded_history, rule historyBounded_run, rule historyBounded_init)
  have many: "history (fst (run (map (roomPost c) xs) s)) c =
                lastN 100 (messages r @ map postedMsg xs)"
    if "map_of (chatrooms s) c = Some r" "length (messages r) \<le> 100" for xs
    using post_many [OF that, of xs] by (simp add: history_def)
  have fifo: "history (fst (chatroomMessage sock c m n t s)) c =
                tl (messages r) @ [postedMsg (sock, m, n, t)]"
    if "map_of (chatrooms s) c = Some r" "length (messages r) = 100"
  proof -
    from that have ne: "messages r \<noteq> []" by auto
    from that have "history (fst (chatroomMessage sock c m n t s)) c =
                      lastN 100 (messages r @ [postedMsg (sock, m, n, t)])"
      using chatroomMessage_history [of s c r sock m n t] by (simp add: history_def)
    also have "\<dots> = tl (messages r) @ [postedMsg (sock, m, n, t)]"
      using that ne by (simp add: lastN_def drop_Suc)
    finally show ?thesis .
  qed
  have hundred_one: "history (fst (run (map (roomPost c) xs) s)) c = map postedMsg (tl xs)"
    if "map_of (chatrooms s) c = Some r" "messages r = []" "length xs = 101"
  proof -
    from that have "history (fst (run (map (roomPost c) xs) s)) c =
                      lastN 100 (messages r @ map postedMsg xs)"
      by (intro many) simp_all
    also have "\<dots> = map postedMsg (tl xs)"
      using that by (simp add: lastN_def drop_Suc map_tl)
    finally show ?thesis .
  qed
  have second: "history2 (fst (run2 (map (roomPost2 sock c) ys) s')) c =
                  cr_messages r' @ map (postedMsg2 u) ys"
    if "map_of (onlineUsers2 s') (userId s' sock) = Some u" "map_of (chatrooms2 s') c = Some r'"
    using post_many2 [OF that, of ys] by (simp add: history2_def)
  from bound many fifo hundred_one second show ?thesis by blast
qed

theorem history_capacity_witness:
  "history (fst (run (map (roomPost ''lobby'')
                       (map (\<lambda>i. (''c1'', decimal i, ''Ann'', ''12:00'')) [0..<101]))
                  (fst (joinChatroom ''c1'' ''lobby'' init)))) ''lobby''
     = map (\<lambda>i. \<lparr>msg_nickname = ''Ann'', msg_content = decimal i, msg_time = ''12:00''\<rparr>) [1..<101]
   \<and> history2 (fst (run2 (map (roomPost2 ''c1'' ''lobby'') [(''a'', 1), (''b'', 2)])
                  (fst (run2 [OnUserJoin2 ''c1'' userAnn, OnJoinChatroom2 ''c1'' ''lobby''] init2))))
        ''lobby''
     = [\<lparr>md_nickname = ''Ann'', md_avatar = ''ann.png'', md_content = ''a'', md_timestamp = 1\<rparr>,
        \<lparr>md_nickname = ''Ann'', md_avatar = ''ann.png'', md_content = ''b'', md_timestamp = 2\<rparr>]"
proof -
  let ?s = "fst (joinChatroom ''c1'' ''lobby'' init)"
  let ?r = "\<lparr>room_id = ''lobby'', users = [''c1''], messages = []\<rparr>"
  let ?s2 = "fst (run2 [OnUserJoin2 ''c1'' userAnn, OnJoinChatroom2 ''c1'' ''lobby''] init2)"
  let ?u = "userAnn\<lparr>socketId := ''c1''\<rparr>"
  let ?r2 = "\<lparr>cr_messages = [], members = [Key ''u1'']\<rparr>"
  have r: "map_of (chatrooms ?s) ''lobby'' = Some ?r" "messages ?r = []"
    by (simp_all add: joinChatroom_def init_def setAdd_def)
  have u: "map_of (onlineUsers2 ?s2) (userId ?s2 ''c1'') = Some ?u"
    by (simp add: userJoin2_def joinChatroom2_def init2_def userAnn_def)
  have r2: "map_of (chatrooms2 ?s2) ''lobby'' = Some ?r2"
    by (simp add: userJoin2_def joinChatroom2_def init2_def userAnn_def)
  have len: "length (map (\<lambda>i. (''c1'', decimal i, ''Ann'', ''12:00'')) [0..<101]) = 101"
    by simp
  have tl: "tl [0..<101] = [1..<101]"
    by (simp add: upt_conv_Cons)
  from history_capacity [where s = ?s and c = "''lobby''" and r = ?r and s' = ?s2
      and sock = "''c1''" and u = ?u and r' = ?r2
      and xs = "map (\<lambda>i. (''c1'', decimal i, ''Ann'', ''12:00'')) [0..<101]"
      and ys = "[(''a'', 1), (''b'', 2)]"] r u r2 len
  show ?thesis
    by (simp add: lastN_def drop_map postedMsg_def postedMsg2_def userAnn_def comp_def)
qed

text \<open>The claim as stated fails in the second variant: after one participant has
  announced and joined a room, 101 posts leave 101 records in the room's history.\<close>

theorem history_unbounded_second_variant:
  "length (history2 (fst (run2 (map (roomPost2 ''c1'' ''lobby'') (replicate 101 (''hi'', 0)))
             (fst (run2 [OnUserJoin2 ''c1'' userAnn, OnJoinChatroom2 ''c1'' ''lobby''] init2))))
           ''lobby'') = 101"
proof -
  let ?s2 = "fst (run2 [OnUserJoin2 ''c1'' userAnn, OnJoinChatroom2 ''c1'' ''lobby''] init2)"
  have u: "map_of (onlineUsers2 ?s2) (userId ?s2 ''c1'') = Some (userAnn\<lparr>socketId := ''c1''\<rparr>)"
    by (simp add: userJoin2_def joinChatroom2_def init2_def userAnn_def)
  have r2: "map_of (chatrooms2 ?s2) ''lobby'' = Some \<lparr>cr_messages = [], members = [Key ''u1'']\<rparr>"
    by (simp add: userJoin2_def joinChatroom2_def init2_def userAnn_def)
  from post_many2 [OF u r2, of "replicate 101 (''hi'', 0)"] show ?thesis
    by (simp add: history2_def)
qed

section \<open>The snapshot of active bubbles\<close>




section \<open>Private bubbles\<close>




text \<open>In the second variant identifiers come from the client. When a non-private bubble
  is published under the identifier of a stored private bubble, its timer removes the
  first bubble with that identifier, here the private one, and announces the identifier.\<close>

lemma second_variant_shared_identifier:
  "run2 [OnPublishBubble2 ''c1'' bubbleQ, OnPublishBubble2 ''c2'' bubbleA,
         OnTimeout2 (Key ''a'') 2000] init2 =
     (init2\<lparr>allBubbles2 := [bubbleA]\<rparr>,
      [IoEmit (NewBubble bubbleQ), IoEmit (NewBubble bubbleA), IoEmit (BubbleExpired (Key ''a''))])"
  by (simp add: publishBubble2_def expiryTimer2_def splice1_def init2_def bubbleA_def
      bubbleQ_def Let_def)

section \<open>Publishing a bubble\<close>

text \<open>
  Claim C5, as the code has it. In \<^verbatim>\<open>server.js\<close> the stored bubble is the client's object
  with its identifier replaced by \<^verbatim>\<open>bubble_<clock>_<random suffix>\<close> and its creation time
  by the clock; the identifier and the creation time the client sent have no effect, and
  two generated identifiers are equal only if both the clock value and the random suffix
  are equal. In the second variant the bubble is stored exactly as the client sent it,
  identifier and creation time included. In both variants the bubble is appended to the
  store and the stored bubble is broadcast to every connection.
\<close>

theorem publish_assigns:
  "allBubbles (fst (publishBubble sock bd idNow rnd now s)) =
     allBubbles s @ [bd\<lparr>id' := Key (bubbleIdentifier idNow rnd), createdAt := now\<rparr>]
   \<and> snd (publishBubble sock bd idNow rnd now s) =
     [IoEmit (NewBubble (bd\<lparr>id' := Key (bubbleIdentifier idNow rnd), createdAt := now\<rparr>))]
   \<and> publishBubble sock (bd\<lparr>id' := x, createdAt := y\<rparr>) idNow rnd now s =
     publishBubble sock bd idNow rnd now s
   \<and> (bubbleIdentifier idNow rnd = bubbleIdentifier idNow' rnd' \<longleftrightarrow>
        idNow = idNow' \<and> rnd = rnd')
   \<and> allBubbles2 (fst (publishBubble2 sock bd s')) = allBubbles2 s' @ [bd]
   \<and> snd (publishBubble2 sock bd s') = [IoEmit (NewBubble bd)]"
  by (simp add: publishBubble_def publishBubble2_def Let_def bubbleIdentifier_inj)

theorem publish_assigns_witness:
  "allBubbles (fst (publishBubble ''c1'' bubbleA 1700000000000 ''k3j9x0q1z'' 1700000000001 init)) =
     [\<lparr>id' = Key ''bubble_1700000000000_k3j9x0q1z'', title = ''A'', author = ''u1'',
       createdAt = 1700000000001, duration = 2, isPrivate = False\<rparr>]
   \<and> allBubbles2 (fst (publishBubble2 ''c1'' bubbleA init2)) = [bubbleA]"
  using publish_assigns [of "''c1''" bubbleA 1700000000000 "''k3j9x0q1z''" 1700000000001 init
                            _ _ _ _ init2]
  by (simp add: init_def init2_def bubbleA_def bubbleIdentifier_def numberToString_def
      decimal.simps)

text \<open>The claim as stated fails in the second variant: two clients publish the same
  object, and the store then holds two bubbles with the identifier and the creation time
  the clients sent.\<close>

theorem client_identifier_stored:
  "map id' (allBubbles2 (fst (run2 [OnPublishBubble2 ''c1'' bubbleA,
                                    OnPublishBubble2 ''c2'' bubbleA] init2))) = [Key ''a'', Key ''a'']
   \<and> map createdAt (allBubbles2 (fst (run2 [OnPublishBubble2 ''c1'' bubbleA,
                                    OnPublishBubble2 ''c2'' bubbleA] init2))) = [1000, 1000]"
  by (simp add: publishBubble2_def init2_def bubbleA_def Let_def)

section \<open>Announcing a participant\<close>

text \<open>
  Claim C2, as the code has it. In the second variant the registry is keyed by the
  participant identifier: when \<open>p\<close> is already announced, an announce of \<open>p\<close> from another
  connection overwrites the record, leaves the registry size (the broadcast count)
  unchanged, and binds \<open>p\<close> to the new connection. After that announce and any further
  events among which \<open>p\<close> is not announced again and no connection whose
  \<^verbatim>\<open>socket.userId\<close> is \<open>p\<close> disconnects, a friend message to \<open>p\<close> from a sender the
  registry resolves is emitted to the new connection and to nothing else. In
  \<^verbatim>\<open>server.js\<close> the registry is keyed by the connection id: an announce from a connection
  without a record adds one and raises the count by one whatever identifier the profile
  carries, an announce from a connection with a record keeps the count, and a private
  message is emitted to the room named by the target the client sent, without a look at
  the registry.
\<close>

theorem reannounce_rebinds:
  "(map_of (onlineUsers2 s') (uid ud) = Some old \<longrightarrow>
      length (onlineUsers2 (fst (userJoin2 sock ud s'))) = length (onlineUsers2 s')
      \<and> hd (snd (userJoin2 sock ud s')) = IoEmit (OnlineCount (length (onlineUsers2 s')))
      \<and> map_of (onlineUsers2 (fst (userJoin2 sock ud s'))) (uid ud) = Some (ud\<lparr>socketId := sock\<rparr>))
   \<and> (map_of (onlineUsers2 s') (uid ud) = Some old
       \<and> untouched (uid ud) es (fst (userJoin2 sock ud s'))
       \<and> map_of (onlineUsers2 (fst (run2 es (fst (userJoin2 sock ud s')))))
            (userId (fst (run2 es (fst (userJoin2 sock ud s')))) sender) = Some su \<longrightarrow>
      snd (friendMessage sender (uid ud) m now (fst (run2 es (fst (userJoin2 sock ud s'))))) =
        [IoTo sock (FriendMessage
           \<lparr>fm_from = userId (fst (run2 es (fst (userJoin2 sock ud s')))) sender,
            fm_to = uid ud, fm_nickname = nickname su, fm_avatar = avatar su,
            fm_content = m, fm_timestamp = now\<rparr>)])
   \<and> (map_of (onlineUsers s) sock = None \<longrightarrow>
      length (onlineUsers (fst (userJoin sock ud joinNow now' s))) = Suc (length (onlineUsers s)))
   \<and> (map_of (onlineUsers s) sock = Some old' \<longrightarrow>
      length (onlineUsers (fst (userJoin sock ud joinNow now' s))) = length (onlineUsers s))
   \<and> snd (privateMessage sender target msg nick time s) =
        [IoTo target (PrivateMessage
           \<lparr>pm_from = sender, pm_nickname = nick, pm_content = msg, pm_time = time\<rparr>),
         SocketEmit sender (PrivateMessage
           \<lparr>pm_from = sender, pm_nickname = nick, pm_content = msg, pm_time = time\<rparr>)]"
proof -
  let ?t = "fst (run2 es (fst (userJoin2 sock ud s')))"
  have a: "length (onlineUsers2 (fst (userJoin2 sock ud s'))) = length (onlineUsers2 s')
      \<and> hd (snd (userJoin2 sock ud s')) = IoEmit (OnlineCount (length (onlineUsers2 s')))
      \<and> map_of (onlineUsers2 (fst (userJoin2 sock ud s'))) (uid ud) = Some (ud\<lparr>socketId := sock\<rparr>)"
    if "map_of (onlineUsers2 s') (uid ud) = Some old"
    using that
    by (simp add: userJoin2_def Let_def length_update_present [of _ _ old] map_of_update_same)
  have c: "snd (friendMessage sender p m now t) =
        [IoTo (socketId bound) (FriendMessage
           \<lparr>fm_from = userId t sender, fm_to = p, fm_nickname = nickname su,
            fm_avatar = avatar su, fm_content = m, fm_timestamp = now\<rparr>)]"
    if "map_of (onlineUsers2 t) p = Some bound" "map_of (onlineUsers2 t) (userId t sender) = Some su"
    for t p bound
    using that by (simp add: friendMessage_def Let_def)
  have b: "snd (friendMessage sender (uid ud) m now ?t) =
        [IoTo sock (FriendMessage
           \<lparr>fm_from = userId ?t sender, fm_to = uid ud, fm_nickname = nickname su,
            fm_avatar = avatar su, fm_content = m, fm_timestamp = now\<rparr>)]"
    if old: "map_of (onlineUsers2 s') (uid ud) = Some old"
      and keep: "untouched (uid ud) es (fst (userJoin2 sock ud s'))"
      and su: "map_of (onlineUsers2 ?t) (userId ?t sender) = Some su"
  proof -
    from a [OF old]
    have "map_of (onlineUsers2 (fst (userJoin2 sock ud s'))) (uid ud) = Some (ud\<lparr>socketId := sock\<rparr>)"
      by simp
    with untouched_run [OF keep]
    have "map_of (onlineUsers2 ?t) (uid ud) = Some (ud\<lparr>socketId := sock\<rparr>)"
      by simp
    from c [OF this su] show ?thesis by simp
  qed
  have d: "length (onlineUsers (fst (userJoin sock ud joinNow now' s))) = Suc (length (onlineUsers s))"
    if "map_of (onlineUsers s) sock = None"
    using that by (simp add: userJoin_def Let_def length_update_absent)
  have e: "length (onlineUsers (fst (userJoin sock ud joinNow now' s))) = length (onlineUsers s)"
    if "map_of (onlineUsers s) sock = Some old'"
    using that by (simp add: userJoin_def Let_def length_update_present [of _ _ old'])
  have f: "snd (privateMessage sender target msg nick time s) =
        [IoTo target (PrivateMessage
           \<lparr>pm_from = sender, pm_nickname = nick, pm_content = msg, pm_time = time\<rparr>),
         SocketEmit sender (PrivateMessage
           \<lparr>pm_from = sender, pm_nickname = nick, pm_content = msg, pm_time = time\<rparr>)]"
    by (simp add: privateMessage_def Let_def)
  from a b d e f show ?thesis by blast
qed

theorem reannounce_rebinds_witness:
  "length (onlineUsers2 (fst (userJoin2 ''c2'' userAnn
             (fst (run2 [OnUserJoin2 ''c1'' userAnn, OnUserJoin2 ''c3'' userBob] init2)))))
     = length (onlineUsers2 (fst (run2 [OnUserJoin2 ''c1'' userAnn, OnUserJoin2 ''c3'' userBob] init2)))
   \<and> snd (friendMessage ''c3'' (Key ''u1'') ''hi'' 7
            (fst (run2 [OnJoinChatroom2 ''c1'' ''lobby'', OnPublishBubble2 ''c3'' bubbleA,
                        OnDisconnect2 ''c9'']
                   (fst (userJoin2 ''c2'' userAnn
                      (fst (run2 [OnUserJoin2 ''c1'' userAnn, OnUserJoin2 ''c3'' userBob] init2))))))) =
       [IoTo ''c2'' (FriendMessage
          \<lparr>fm_from = Key ''u2'', fm_to = Key ''u1'', fm_nickname = ''Bob'',
           fm_avatar = ''bob.png'', fm_content = ''hi'', fm_timestamp = 7\<rparr>)]
   \<and> length (onlineUsers (fst (userJoin ''c2'' userAnn 20 20
                                (fst (userJoin ''c1'' userAnn 10 10 init))))) = 2"
proof -
  let ?s0 = "fst (run2 [OnUserJoin2 ''c1'' userAnn, OnUserJoin2 ''c3'' userBob] init2)"
  let ?s1 = "fst (userJoin2 ''c2'' userAnn ?s0)"
  let ?es = "[OnJoinChatroom2 ''c1'' ''lobby'', OnPublishBubble2 ''c3'' bubbleA, OnDisconnect2 ''c9'']"
  let ?t = "fst (run2 ?es ?s1)"
  have s0: "?s0 = init2\<lparr>onlineUsers2 := [(Key ''u1'', userAnn\<lparr>socketId := ''c1''\<rparr>),
                                          (Key ''u2'', userBob\<lparr>socketId := ''c3''\<rparr>)],
                        userId := (\<lambda>_. Undefined)(''c1'' := Key ''u1'', ''c3'' := Key ''u2'')\<rparr>"
    by (simp only: fst_run2_Cons run2.simps(1) fst_conv)
       (simp add: userJoin2_def init2_def userAnn_def userBob_def)
  have old: "map_of (onlineUsers2 ?s0) (uid userAnn) = Some (userAnn\<lparr>socketId := ''c1''\<rparr>)"
    unfolding s0 by (simp add: userAnn_def userBob_def)
  have keep: "untouched (uid userAnn) ?es ?s1"
    unfolding s0
    by (simp add: userJoin2_def joinChatroom2_def publishBubble2_def init2_def
        userAnn_def userBob_def bubbleA_def Let_def)
  have users: "onlineUsers2 ?t = onlineUsers2 ?s1" and ids: "userId ?t = userId ?s1"
    by (simp_all only: fst_run2_Cons run2.simps(1) fst_conv)
       (simp_all add: userJoin2_def joinChatroom2_def publishBubble2_def disconnect2_def
          init2_def userAnn_def userBob_def bubbleA_def Let_def)
  have su: "map_of (onlineUsers2 ?t) (userId ?t ''c3'') = Some (userBob\<lparr>socketId := ''c3''\<rparr>)"
    by (simp only: users ids) (simp add: userJoin2_def init2_def userAnn_def userBob_def)
  have sender: "userId ?t ''c3'' = Key ''u2''"
    by (simp only: ids) (simp add: userJoin2_def init2_def userAnn_def userBob_def)
  have none: "map_of (onlineUsers (fst (userJoin ''c1'' userAnn 10 10 init))) ''c2'' = None"
    by (simp add: userJoin_def init_def)
  have one: "length (onlineUsers (fst (userJoin ''c1'' userAnn 10 10 init))) = 1"
    by (simp add: userJoin_def init_def)
  note th = reannounce_rebinds [where s' = ?s0 and ud = userAnn and sock = "''c2''"
      and old = "userAnn\<lparr>socketId := ''c1''\<rparr>" and es = ?es and sender = "''c3''"
      and su = "userBob\<lparr>socketId := ''c3''\<rparr>" and m = "''hi''" and now = 7
      and s = "fst (userJoin ''c1'' userAnn 10 10 init)" and joinNow = 20 and now' = 20]
  from th old have w1: "length (onlineUsers2 ?s1) = length (onlineUsers2 ?s0)"
    by blast
  from th old keep su
  have "snd (friendMessage ''c3'' (uid userAnn) ''hi'' 7 ?t) =
        [IoTo ''c2'' (FriendMessage
           \<lparr>fm_from = userId ?t ''c3'', fm_to = uid userAnn,
            fm_nickname = nickname (userBob\<lparr>socketId := ''c3''\<rparr>),
            fm_avatar = avatar (userBob\<lparr>socketId := ''c3''\<rparr>),
            fm_content = ''hi'', fm_timestamp = 7\<rparr>)]"
    by blast
  then have w2: "snd (friendMessage ''c3'' (Key ''u1'') ''hi'' 7 ?t) =
       [IoTo ''c2'' (FriendMessage
          \<lparr>fm_from = Key ''u2'', fm_to = Key ''u1'', fm_nickname = ''Bob'',
           fm_avatar = ''bob.png'', fm_content = ''hi'', fm_timestamp = 7\<rparr>)]"
    unfolding sender by (simp only: userAnn_def userBob_def user.simps)
  from th none one
  have w3: "length (onlineUsers (fst (userJoin ''c2'' userAnn 20 20
                                (fst (userJoin ''c1'' userAnn 10 10 init))))) = 2"
    by simp
  from w1 w2 w3 show ?thesis by blast
qed

text \<open>The claim as stated fails in three ways. In \<^verbatim>\<open>server.js\<close> the same profile
  announced from a second connection raises the broadcast count from 1 to 2. In the second
  variant, after \<open>u1\<close> has announced on \<open>c1\<close> and again on \<open>c2\<close>, the disconnect of \<open>c1\<close>
  deletes the record that binds \<open>u1\<close> to \<open>c2\<close>: the count falls to 1 and a friend message
  to \<open>u1\<close> from the announced participant \<open>u2\<close> is emitted to nobody. And a friend
  message to \<open>u1\<close> from a connection that never announced is emitted to nobody.\<close>

theorem reannounce_counts_twice:
  "snd (run [OnUserJoin ''c1'' userAnn 10 10, OnUserJoin ''c2'' userAnn 20 20] init) =
     [IoEmit (OnlineCount 1), SocketEmit ''c1'' (InitialBubbles []),
      IoEmit (OnlineCount 2), SocketEmit ''c2'' (InitialBubbles [])]
   \<and> snd (run2 [OnUserJoin2 ''c1'' userAnn, OnUserJoin2 ''c3'' userBob,
                 OnUserJoin2 ''c2'' userAnn, OnDisconnect2 ''c1'',
                 OnFriendMessage ''c3'' (Key ''u1'') ''hi'' 7] init2) =
     [IoEmit (OnlineCount 1), SocketEmit ''c1'' (AllBubbles []),
      IoEmit (OnlineCount 2), SocketEmit ''c3'' (AllBubbles []),
      IoEmit (OnlineCount 2), SocketEmit ''c2'' (AllBubbles []),
      IoEmit (OnlineCount 1)]
   \<and> snd (run2 [OnUserJoin2 ''c1'' userAnn, OnUserJoin2 ''c2'' userAnn,
                 OnFriendMessage ''c9'' (Key ''u1'') ''hi'' 7] init2) =
     [IoEmit (OnlineCount 1), SocketEmit ''c1'' (AllBubbles []),
      IoEmit (OnlineCount 1), SocketEmit ''c2'' (AllBubbles [])]"
proof -
  have one: "snd (run [OnUserJoin ''c1'' userAnn 10 10, OnUserJoin ''c2'' userAnn 20 20] init) =
     [IoEmit (OnlineCount 1), SocketEmit ''c1'' (InitialBubbles []),
      IoEmit (OnlineCount 2), SocketEmit ''c2'' (InitialBubbles [])]"
    by (simp add: userJoin_def activeBubbles_def init_def Let_def)
  have two: "snd (run2 [OnUserJoin2 ''c1'' userAnn, OnUserJoin2 ''c3'' userBob,
                 OnUserJoin2 ''c2'' userAnn, OnDisconnect2 ''c1'',
                 OnFriendMessage ''c3'' (Key ''u1'') ''hi'' 7] init2) =
     [IoEmit (OnlineCount 1), SocketEmit ''c1'' (AllBubbles []),
      IoEmit (OnlineCount 2), SocketEmit ''c3'' (AllBubbles []),
      IoEmit (OnlineCount 2), SocketEmit ''c2'' (AllBubbles []),
      IoEmit (OnlineCount 1)]"
    by (simp only: snd_run2_Cons fst_run2_Cons run2.simps(1) fst_conv snd_conv)
       (simp add: userJoin2_def disconnect2_def friendMessage_def init2_def userAnn_def
          userBob_def Let_def)
  have three: "snd (run2 [OnUserJoin2 ''c1'' userAnn, OnUserJoin2 ''c2'' userAnn,
                 OnFriendMessage ''c9'' (Key ''u1'') ''hi'' 7] init2) =
     [IoEmit (OnlineCount 1), SocketEmit ''c1'' (AllBubbles []),
      IoEmit (OnlineCount 1), SocketEmit ''c2'' (AllBubbles [])]"
    by (simp only: snd_run2_Cons fst_run2_Cons run2.simps(1) fst_conv snd_conv)
       (simp add: userJoin2_def friendMessage_def init2_def userAnn_def Let_def)
  from one two three show ?thesis by blast
qed

section \<open>Room messages and the sender's identity\<close>

text \<open>
  Claim C9, as the code has it. In the second variant a room message from a connection
  whose \<^verbatim>\<open>socket.userId\<close> has no record in the registry changes nothing and emits
  nothing; when the record exists, the message record carries the nickname and the avatar
  of that record, is emitted to the room, and is appended to the room's history when the
  room exists. In \<^verbatim>\<open>server.js\<close> the handler never consults the registry: the event is
  dropped only when the room does not exist, and otherwise the record carries the
  nickname the client sent, is appended to the history and is emitted to the room.
\<close>

theorem room_message_identity:
  "(map_of (onlineUsers2 s') (userId s' sock) = None \<longrightarrow>
      chatroomMessage2 sock c m now s' = (s', []))
   \<and> (map_of (onlineUsers2 s') (userId s' sock) = Some u \<longrightarrow>
      snd (chatroomMessage2 sock c m now s') =
        [IoTo c (ChatroomMessage2
           \<lparr>md_nickname = nickname u, md_avatar = avatar u, md_content = m,
            md_timestamp = now\<rparr>)])
   \<and> (map_of (onlineUsers2 s') (userId s' sock) = Some u \<and> map_of (chatrooms2 s') c = Some r' \<longrightarrow>
      history2 (fst (chatroomMessage2 sock c m now s')) c =
        cr_messages r' @
          [\<lparr>md_nickname = nickname u, md_avatar = avatar u, md_content = m,
            md_timestamp = now\<rparr>])
   \<and> (map_of (chatrooms s) c = None \<longrightarrow> chatroomMessage sock c m n t s = (s, []))
   \<and> (map_of (chatrooms s) c = Some r \<longrightarrow>
      snd (chatroomMessage sock c m n t s) =
        [IoTo c (ChatroomMessage \<lparr>msg_nickname = n, msg_content = m, msg_time = t\<rparr>)]
      \<and> last (history (fst (chatroomMessage sock c m n t s)) c) =
           \<lparr>msg_nickname = n, msg_content = m, msg_time = t\<rparr>)
   \<and> snd (chatroomMessage sock c m n t (s\<lparr>onlineUsers := registry\<rparr>)) =
       snd (chatroomMessage sock c m n t s)
   \<and> chatrooms (fst (chatroomMessage sock c m n t (s\<lparr>onlineUsers := registry\<rparr>))) =
       chatrooms (fst (chatroomMessage sock c m n t s))"
proof -
  have a: "chatroomMessage2 sock c m now s' = (s', [])"
    if "map_of (onlineUsers2 s') (userId s' sock) = None"
    using that by (simp add: chatroomMessage2_def)
  have b: "snd (chatroomMessage2 sock c m now s') =
        [IoTo c (ChatroomMessage2
           \<lparr>md_nickname = nickname u, md_avatar = avatar u, md_content = m,
            md_timestamp = now\<rparr>)]"
    if "map_of (onlineUsers2 s') (userId s' sock) = Some u"
    using that by (simp add: chatroomMessage2_def Let_def)
  have c: "history2 (fst (chatroomMessage2 sock c m now s')) c =
        cr_messages r' @
          [\<lparr>md_nickname = nickname u, md_avatar = avatar u, md_content = m,
            md_timestamp = now\<rparr>]"
    if "map_of (onlineUsers2 s') (userId s' sock) = Some u" "map_of (chatrooms2 s') c = Some r'"
    using that by (simp add: chatroomMessage2_def Let_def history2_def map_of_update_same)
  have d: "chatroomMessage sock c m n t s = (s, [])" if "map_of (chatrooms s) c = None"
    using that by (simp add: chatroomMessage_def)
  have e: "snd (chatroomMessage sock c m n t s) =
        [IoTo c (ChatroomMessage \<lparr>msg_nickname = n, msg_content = m, msg_time = t\<rparr>)]
      \<and> last (history (fst (chatroomMessage sock c m n t s)) c) =
           \<lparr>msg_nickname = n, msg_content = m, msg_time = t\<rparr>"
    if r: "map_of (chatrooms s) c = Some r"
  proof -
    have "last (tl (messages r @ [\<lparr>msg_nickname = n, msg_content = m, msg_time = t\<rparr>])) =
            \<lparr>msg_nickname = n, msg_content = m, msg_time = t\<rparr>"
      if "100 < Suc (length (messages r))"
    proof -
      from that have "messages r \<noteq> []" by auto
      then show ?thesis by simp
    qed
    with r show ?thesis
      by (simp add: chatroomMessage_def Let_def history_def map_of_update_same)
  qed
  have f: "snd (chatroomMessage sock c m n t (s\<lparr>onlineUsers := registry\<rparr>)) =
             snd (chatroomMessage sock c m n t s)
           \<and> chatrooms (fst (chatroomMessage sock c m n t (s\<lparr>onlineUsers := registry\<rparr>))) =
             chatrooms (fst (chatroomMessage sock c m n t s))"
    by (cases "map_of (chatrooms s) c") (simp_all add: chatroomMessage_def Let_def)
  from a b c d e f show ?thesis by blast
qed

theorem room_message_identity_witness:
  "chatroomMessage2 ''c9'' ''lobby'' ''hi'' 7
     (fst (run2 [OnUserJoin2 ''c1'' userAnn, OnJoinChatroom2 ''c1'' ''lobby''] init2)) =
     (fst (run2 [OnUserJoin2 ''c1'' userAnn, OnJoinChatroom2 ''c1'' ''lobby''] init2), [])
   \<and> snd (chatroomMessage2 ''c1'' ''lobby'' ''hi'' 7
        (fst (run2 [OnUserJoin2 ''c1'' userAnn, OnJoinChatroom2 ''c1'' ''lobby''] init2))) =
       [IoTo ''lobby'' (ChatroomMessage2
          \<lparr>md_nickname = ''Ann'', md_avatar = ''ann.png'', md_content = ''hi'',
           md_timestamp = 7\<rparr>)]
   \<and> chatroomMessage ''c9'' ''nowhere'' ''hi'' ''Mallory'' ''12:00'' init = (init, [])"
proof -
  let ?s = "fst (run2 [OnUserJoin2 ''c1'' userAnn, OnJoinChatroom2 ''c1'' ''lobby''] init2)"
  have unbound: "map_of (onlineUsers2 ?s) (userId ?s ''c9'') = None"
    by (simp add: userJoin2_def joinChatroom2_def init2_def userAnn_def)
  have bound: "map_of (onlineUsers2 ?s) (userId ?s ''c1'') = Some (userAnn\<lparr>socketId := ''c1''\<rparr>)"
    by (simp add: userJoin2_def joinChatroom2_def init2_def userAnn_def)
  have noroom: "map_of (chatrooms init) ''nowhere'' = None"
    by (simp add: init_def)
  from room_message_identity [where s' = ?s and sock = "''c9''" and c = "''lobby''"
      and m = "''hi''" and now = 7] unbound
    room_message_identity [where s' = ?s and sock = "''c1''" and c = "''lobby''"
      and m = "''hi''" and now = 7 and u = "userAnn\<lparr>socketId := ''c1''\<rparr>"] bound
    room_message_identity [where s = init and sock = "''c9''" and c = "''nowhere''"
      and m = "''hi''" and n = "''Mallory''" and t = "''12:00''"] noroom
  show ?thesis
    by (simp add: userAnn_def)
qed

text \<open>The claim as stated fails in \<^verbatim>\<open>server.js\<close>: a connection that never announced
  joins a room and posts under a nickname of its choice; the record is stored and emitted
  to the room while the registry is empty.\<close>

theorem unannounced_post_is_relayed:
  "onlineUsers (fst (joinChatroom ''c9'' ''lobby'' init)) = []
   \<and> snd (chatroomMessage ''c9'' ''lobby'' ''hi'' ''Mallory'' ''12:00''
            (fst (joinChatroom ''c9'' ''lobby'' init))) =
       [IoTo ''lobby'' (ChatroomMessage
          \<lparr>msg_nickname = ''Mallory'', msg_content = ''hi'', msg_time = ''12:00''\<rparr>)]
   \<and> history (fst (chatroomMessage ''c9'' ''lobby'' ''hi'' ''Mallory'' ''12:00''
                     (fst (joinChatroom ''c9'' ''lobby'' init)))) ''lobby'' =
       [\<lparr>msg_nickname = ''Mallory'', msg_content = ''hi'', msg_time = ''12:00''\<rparr>]"
  by (simp add: joinChatroom_def chatroomMessage_def history_def setAdd_def init_def Let_def)

section \<open>Direct messages\<close>

text \<open>
  Claim C7, as the code has it. In \<^verbatim>\<open>server.js\<close> a private message changes no state and
  is emitted twice, in every case: to the room named by the target the client sent (the
  registry is not consulted) and back to the sender's own connection. In the second
  variant a friend message from a sender the registry does not resolve changes nothing
  and emits nothing; from a resolved sender the record is appended to the conversation
  log of the pair, is emitted to the connection bound to the target when the registry
  resolves the target and to nobody otherwise, and is never echoed to the sender. No
  handler's emits depend on the conversation log, so a logged record is never delivered
  later.
\<close>

theorem direct_message_delivery:
  "privateMessage sock target m n t s =
     (s, [IoTo target (PrivateMessage
            \<lparr>pm_from = sock, pm_nickname = n, pm_content = m, pm_time = t\<rparr>),
          SocketEmit sock (PrivateMessage
            \<lparr>pm_from = sock, pm_nickname = n, pm_content = m, pm_time = t\<rparr>)])
   \<and> (map_of (onlineUsers2 s') (userId s' sock) = None \<longrightarrow>
        friendMessage sock friendId m now s' = (s', []))
   \<and> (map_of (onlineUsers2 s') (userId s' sock) = Some su \<and> map_of (onlineUsers2 s') friendId = None \<longrightarrow>
        snd (friendMessage sock friendId m now s') = [])
   \<and> (map_of (onlineUsers2 s') (userId s' sock) = Some su
       \<and> map_of (onlineUsers2 s') friendId = Some friend \<longrightarrow>
        snd (friendMessage sock friendId m now s') =
          [IoTo (socketId friend) (FriendMessage
             \<lparr>fm_from = userId s' sock, fm_to = friendId, fm_nickname = nickname su,
              fm_avatar = avatar su, fm_content = m, fm_timestamp = now\<rparr>)])
   \<and> (map_of (onlineUsers2 s') (userId s' sock) = Some su \<longrightarrow>
        fst (friendMessage sock friendId m now s') =
          s'\<lparr>friendChats :=
               AList.update (chatKey (userId s' sock) friendId)
                 ((case map_of (friendChats s') (chatKey (userId s' sock) friendId) of
                     None \<Rightarrow> [] | Some ms \<Rightarrow> ms) @
                  [\<lparr>fm_from = userId s' sock, fm_to = friendId, fm_nickname = nickname su,
                    fm_avatar = avatar su, fm_content = m, fm_timestamp = now\<rparr>])
                 (friendChats s')\<rparr>)
   \<and> snd (step2 e (s'\<lparr>friendChats := anyLog\<rparr>)) = snd (step2 e s')"
proof -
  have a: "privateMessage sock target m n t s =
     (s, [IoTo target (PrivateMessage
            \<lparr>pm_from = sock, pm_nickname = n, pm_content = m, pm_time = t\<rparr>),
          SocketEmit sock (PrivateMessage
            \<lparr>pm_from = sock, pm_nickname = n, pm_content = m, pm_time = t\<rparr>)])"
    by (simp add: privateMessage_def Let_def)
  have b: "friendMessage sock friendId m now s' = (s', [])"
    if "map_of (onlineUsers2 s') (userId s' sock) = None"
    using that by (simp add: friendMessage_def)
  have c: "snd (friendMessage sock friendId m now s') = []"
    if "map_of (onlineUsers2 s') (userId s' sock) = Some su" "map_of (onlineUsers2 s') friendId = None"
    using that by (simp add: friendMessage_def Let_def)
  have d: "snd (friendMessage sock friendId m now s') =
          [IoTo (socketId friend) (FriendMessage
             \<lparr>fm_from = userId s' sock, fm_to = friendId, fm_nickname = nickname su,
              fm_avatar = avatar su, fm_content = m, fm_timestamp = now\<rparr>)]"
    if "map_of (onlineUsers2 s') (userId s' sock) = Some su"
       "map_of (onlineUsers2 s') friendId = Some friend"
    using that by (simp add: friendMessage_def Let_def)
  have e: "fst (friendMessage sock friendId m now s') =
          s'\<lparr>friendChats :=
               AList.update (chatKey (userId s' sock) friendId)
                 ((case map_of (friendChats s') (chatKey (userId s' sock) friendId) of
                     None \<Rightarrow> [] | Some ms \<Rightarrow> ms) @
                  [\<lparr>fm_from = userId s' sock, fm_to = friendId, fm_nickname = nickname su,
                    fm_avatar = avatar su, fm_content = m, fm_timestamp = now\<rparr>])
                 (friendChats s')\<rparr>"
    if "map_of (onlineUsers2 s') (userId s' sock) = Some su"
    using that by (simp add: friendMessage_def Let_def)
  have f: "snd (step2 e (s'\<lparr>friendChats := anyLog\<rparr>)) = snd (step2 e s')"
    by (cases e)
       (simp_all add: userJoin2_def publishBubble2_def joinChatroom2_def chatroomMessage2_def
          leaveChatroom2_def friendMessage_def disconnect2_def expiryTimer2_def Let_def
          split: option.splits)
  from a b c d e f show ?thesis by blast
qed

theorem direct_message_delivery_witness:
  "friendMessage ''c9'' (Key ''u2'') ''hi'' 7
     (fst (run2 [OnUserJoin2 ''c1'' userAnn, OnUserJoin2 ''c2'' userBob] init2)) =
     (fst (run2 [OnUserJoin2 ''c1'' userAnn, OnUserJoin2 ''c2'' userBob] init2), [])
   \<and> snd (friendMessage ''c1'' (Key ''u3'') ''hi'' 7
        (fst (run2 [OnUserJoin2 ''c1'' userAnn, OnUserJoin2 ''c2'' userBob] init2))) = []
   \<and> snd (friendMessage ''c1'' (Key ''u2'') ''hi'' 7
        (fst (run2 [OnUserJoin2 ''c1'' userAnn, OnUserJoin2 ''c2'' userBob] init2))) =
       [IoTo ''c2'' (FriendMessage
          \<lparr>fm_from = Key ''u1'', fm_to = Key ''u2'', fm_nickname = ''Ann'',
           fm_avatar = ''ann.png'', fm_content = ''hi'', fm_timestamp = 7\<rparr>)]"
proof -
  let ?s = "fst (run2 [OnUserJoin2 ''c1'' userAnn, OnUserJoin2 ''c2'' userBob] init2)"
  have unbound: "map_of (onlineUsers2 ?s) (userId ?s ''c9'') = None"
    by (simp add: userJoin2_def init2_def userAnn_def userBob_def)
  have bound: "map_of (onlineUsers2 ?s) (userId ?s ''c1'') = Some (userAnn\<lparr>socketId := ''c1''\<rparr>)"
    by (simp add: userJoin2_def init2_def userAnn_def userBob_def)
  have offline: "map_of (onlineUsers2 ?s) (Key ''u3'') = None"
    by (simp add: userJoin2_def init2_def userAnn_def userBob_def)
  have online: "map_of (onlineUsers2 ?s) (Key ''u2'') = Some (userBob\<lparr>socketId := ''c2''\<rparr>)"
    by (simp add: userJoin2_def init2_def userAnn_def userBob_def)
  from direct_message_delivery [where s' = ?s and sock = "''c9''" and friendId = "Key ''u2''"
      and m = "''hi''" and now = 7] unbound
  have w1: "friendMessage ''c9'' (Key ''u2'') ''hi'' 7 ?s = (?s, [])"
    by blast
  from direct_message_delivery [where s' = ?s and sock = "''c1''" and friendId = "Key ''u3''"
      and m = "''hi''" and now = 7 and su = "userAnn\<lparr>socketId := ''c1''\<rparr>"] bound offline
  have w2: "snd (friendMessage ''c1'' (Key ''u3'') ''hi'' 7 ?s) = []"
    by blast
  from direct_message_delivery [where s' = ?s and sock = "''c1''" and friendId = "Key ''u2''"
      and m = "''hi''" and now = 7 and su = "userAnn\<lparr>socketId := ''c1''\<rparr>"
      and friend = "userBob\<lparr>socketId := ''c2''\<rparr>"] bound online
  have "snd (friendMessage ''c1'' (Key ''u2'') ''hi'' 7 ?s) =
          [IoTo (socketId (userBob\<lparr>socketId := ''c2''\<rparr>)) (FriendMessage
             \<lparr>fm_from = userId ?s ''c1'', fm_to = Key ''u2'',
              fm_nickname = nickname (userAnn\<lparr>socketId := ''c1''\<rparr>),
              fm_avatar = avatar (userAnn\<lparr>socketId := ''c1''\<rparr>), fm_content = ''hi'',
              fm_timestamp = 7\<rparr>)]"
    by blast
  moreover have "userId ?s ''c1'' = Key ''u1''"
    by (simp add: userJoin2_def init2_def userAnn_def userBob_def)
  ultimately
  have w3: "snd (friendMessage ''c1'' (Key ''u2'') ''hi'' 7 ?s) =
       [IoTo ''c2'' (FriendMessage
          \<lparr>fm_from = Key ''u1'', fm_to = Key ''u2'', fm_nickname = ''Ann'',
           fm_avatar = ''ann.png'', fm_content = ''hi'', fm_timestamp = 7\<rparr>)]"
    by (simp only: userAnn_def userBob_def user.simps)
  from w1 w2 w3 show ?thesis by blast
qed

text \<open>The claim as stated fails in the second variant: an announced participant sends a
  friend message to a participant who is not in the registry, and nothing is emitted, so
  the sender gets no echo; to a participant who is in the registry, the only emit goes to
  the target's connection.\<close>

theorem friend_message_not_echoed:
  "snd (friendMessage ''c1'' (Key ''u3'') ''hi'' 7
         (fst (run2 [OnUserJoin2 ''c1'' userAnn, OnUserJoin2 ''c2'' userBob] init2))) = []
   \<and> snd (friendMessage ''c1'' (Key ''u2'') ''hi'' 7
         (fst (run2 [OnUserJoin2 ''c1'' userAnn, OnUserJoin2 ''c2'' userBob] init2))) =
       [IoTo ''c2'' (FriendMessage
          \<lparr>fm_from = Key ''u1'', fm_to = Key ''u2'', fm_nickname = ''Ann'',
           fm_avatar = ''ann.png'', fm_content = ''hi'', fm_timestamp = 7\<rparr>)]"
  by (simp add: friendMessage_def userJoin2_def init2_def userAnn_def userBob_def Let_def)

section \<open>Disconnect\<close>

text \<open>
  Claim C8, as the code has it. In \<^verbatim>\<open>server.js\<close> the disconnect of connection \<open>sock\<close>
  removes \<open>sock\<close> from the member set of every room that contains it and leaves every
  other room as it was; it emits one member count per room that contained \<open>sock\<close>, in the
  order of the rooms, then deletes the registry record keyed by \<open>sock\<close> and broadcasts the
  registry size. In the second variant the disconnect handler deletes the registry record
  keyed by \<^verbatim>\<open>socket.userId\<close> when that value is truthy and broadcasts the registry size;
  it leaves every room's member list as it was and emits no member count.
\<close>

theorem disconnect_cleanup:
  "chatrooms (fst (disconnect sock s)) =
     map (\<lambda>(c, r). (c, if sock \<in> set (users r) then r\<lparr>users := removeAll sock (users r)\<rparr> else r))
       (chatrooms s)
   \<and> list_all (\<lambda>(c, r). sock \<notin> set (users r)) (chatrooms (fst (disconnect sock s)))
   \<and> snd (disconnect sock s) =
       map (\<lambda>(c, r). IoTo c (ChatroomUserCount (length (removeAll sock (users r)))))
         (filter (\<lambda>(c, r). sock \<in> set (users r)) (chatrooms s))
       @ [IoEmit (OnlineCount (length (AList.delete sock (onlineUsers s))))]
   \<and> onlineUsers (fst (disconnect sock s)) = AList.delete sock (onlineUsers s)
   \<and> map_of (onlineUsers (fst (disconnect sock s))) sock = None
   \<and> chatrooms2 (fst (disconnect2 sock s')) = chatrooms2 s'
   \<and> snd (disconnect2 sock s') =
       [IoEmit (OnlineCount (length (onlineUsers2 (fst (disconnect2 sock s')))))]
   \<and> onlineUsers2 (fst (disconnect2 sock s')) =
       (if truthy (userId s' sock) then AList.delete (userId s' sock) (onlineUsers2 s')
        else onlineUsers2 s')"
proof -
  have same: "(\<lambda>(c, r). (c, r\<lparr>users := removeAll sock (users r)\<rparr>)) =
              (\<lambda>(c, r). (c, if sock \<in> set (users r) then r\<lparr>users := removeAll sock (users r)\<rparr>
                             else r))"
    by (auto simp: fun_eq_iff)
  have rooms0: "chatrooms (fst (disconnect sock s)) =
     map (\<lambda>(c, r). (c, r\<lparr>users := removeAll sock (users r)\<rparr>)) (chatrooms s)"
    using disconnectRooms_fst [of sock "chatrooms s"]
    by (simp add: disconnect_def Let_def split_beta)
  have rooms: "chatrooms (fst (disconnect sock s)) =
     map (\<lambda>(c, r). (c, if sock \<in> set (users r) then r\<lparr>users := removeAll sock (users r)\<rparr> else r))
       (chatrooms s)"
    unfolding rooms0 same ..
  have gone: "list_all (\<lambda>(c, r). sock \<notin> set (users r)) (chatrooms (fst (disconnect sock s)))"
    unfolding rooms0 by (auto simp: list_all_iff)
  have out: "snd (disconnect sock s) =
       map (\<lambda>(c, r). IoTo c (ChatroomUserCount (length (removeAll sock (users r)))))
         (filter (\<lambda>(c, r). sock \<in> set (users r)) (chatrooms s))
       @ [IoEmit (OnlineCount (length (AList.delete sock (onlineUsers s))))]"
    using disconnectRooms_snd [of sock "chatrooms s"]
    by (simp add: disconnect_def Let_def split_beta)
  have reg: "onlineUsers (fst (disconnect sock s)) = AList.delete sock (onlineUsers s)"
    by (simp add: disconnect_def Let_def split_beta)
  have unbound: "map_of (onlineUsers (fst (disconnect sock s))) sock = None"
    unfolding reg by (simp add: delete_conv')
  have second: "chatrooms2 (fst (disconnect2 sock s')) = chatrooms2 s'
     \<and> snd (disconnect2 sock s') =
       [IoEmit (OnlineCount (length (onlineUsers2 (fst (disconnect2 sock s')))))]
     \<and> onlineUsers2 (fst (disconnect2 sock s')) =
       (if truthy (userId s' sock) then AList.delete (userId s' sock) (onlineUsers2 s')
        else onlineUsers2 s')"
    by (simp add: disconnect2_def Let_def)
  from rooms gone out reg unbound second show ?thesis by blast
qed

theorem disconnect_cleanup_witness:
  "snd (disconnect ''c1''
         (fst (run [OnUserJoin ''c1'' userAnn 10 10, OnJoinChatroom ''c1'' ''r1'',
                    OnJoinChatroom ''c2'' ''r3'', OnJoinChatroom ''c1'' ''r2'',
                    OnJoinChatroom ''c2'' ''r2''] init))) =
     [IoTo ''r1'' (ChatroomUserCount 0), IoTo ''r2'' (ChatroomUserCount 1),
      IoEmit (OnlineCount 0)]
   \<and> map (\<lambda>(c, r). (c, users r))
        (chatrooms (fst (disconnect ''c1''
           (fst (run [OnUserJoin ''c1'' userAnn 10 10, OnJoinChatroom ''c1'' ''r1'',
                      OnJoinChatroom ''c2'' ''r3'', OnJoinChatroom ''c1'' ''r2'',
                      OnJoinChatroom ''c2'' ''r2''] init))))) =
     [(''r1'', []), (''r3'', [''c2'']), (''r2'', [''c2''])]"
proof -
  let ?S = "fst (run [OnUserJoin ''c1'' userAnn 10 10, OnJoinChatroom ''c1'' ''r1'',
                      OnJoinChatroom ''c2'' ''r3'', OnJoinChatroom ''c1'' ''r2'',
                      OnJoinChatroom ''c2'' ''r2''] init)"
  have rooms: "chatrooms ?S =
      [(''r1'', \<lparr>room_id = ''r1'', users = [''c1''], messages = []\<rparr>),
       (''r3'', \<lparr>room_id = ''r3'', users = [''c2''], messages = []\<rparr>),
       (''r2'', \<lparr>room_id = ''r2'', users = [''c1'', ''c2''], messages = []\<rparr>)]"
    by (simp only: fst_run_Cons run.simps(1) fst_conv)
       (simp add: userJoin_def joinChatroom_def setAdd_def init_def Let_def)
  have reg: "onlineUsers ?S = [(''c1'', userAnn\<lparr>socketId := ''c1'', joinTime := 10\<rparr>)]"
    by (simp only: fst_run_Cons run.simps(1) fst_conv)
       (simp add: userJoin_def joinChatroom_def setAdd_def init_def Let_def)
  note th = disconnect_cleanup [of "''c1''" ?S init2]
  have out: "snd (disconnect ''c1'' ?S) =
       map (\<lambda>(c, r). IoTo c (ChatroomUserCount (length (removeAll ''c1'' (users r)))))
         (filter (\<lambda>(c, r). ''c1'' \<in> set (users r)) (chatrooms ?S))
       @ [IoEmit (OnlineCount (length (AList.delete ''c1'' (onlineUsers ?S))))]"
    by (rule th [THEN conjunct2, THEN conjunct2, THEN conjunct1])
  have after: "chatrooms (fst (disconnect ''c1'' ?S)) =
       map (\<lambda>(c, r). (c, if ''c1'' \<in> set (users r)
                          then r\<lparr>users := removeAll ''c1'' (users r)\<rparr> else r))
         (chatrooms ?S)"
    by (rule th [THEN conjunct1])
  show ?thesis
    unfolding out after rooms reg by simp
qed

text \<open>The claim as stated fails in the second variant: a participant announces, joins a
  room and disconnects; the room still lists the participant and the only emit of the
  disconnect is the registry size.\<close>

theorem disconnect_keeps_membership:
  "map (\<lambda>(c, r). (c, members r))
     (chatrooms2 (fst (run2 [OnUserJoin2 ''c1'' userAnn, OnJoinChatroom2 ''c1'' ''lobby'',
                             OnDisconnect2 ''c1''] init2))) = [(''lobby'', [Key ''u1''])]
   \<and> snd (disconnect2 ''c1''
        (fst (run2 [OnUserJoin2 ''c1'' userAnn, OnJoinChatroom2 ''c1'' ''lobby''] init2))) =
       [IoEmit (OnlineCount 0)]"
  by (simp add: userJoin2_def joinChatroom2_def disconnect2_def init2_def userAnn_def Let_def)

section \<open>Removal of an expired bubble\<close>

text \<open>The timer callback removes the first bubble that carries its identifier and
  broadcasts one \<^verbatim>\<open>bubbleExpired\<close>; when no stored bubble carries the identifier it
  changes nothing and emits nothing.\<close>

lemma findIndex_range: "- 1 \<le> findIndex P xs \<and> findIndex P xs < int (length xs)"
  by (induction xs) (auto simp: Let_def)

lemma findIndex_absent: "findIndex P xs = - 1 \<longleftrightarrow> (\<forall>x \<in> set xs. \<not> P x)"
proof (induction xs)
  case Nil
  then show ?case by simp
next
  case (Cons x xs)
  then show ?case
    using findIndex_range [of P xs] by (auto simp: Let_def split: if_splits)
qed

lemma expiryTimer_absent:
  "(\<forall>b \<in> set (allBubbles s). id' b \<noteq> bid) \<Longrightarrow> expiryTimer bid s = (s, [])"
  using findIndex_absent [of "\<lambda>b. id' b = bid" "allBubbles s"]
  by (simp add: expiryTimer_def Let_def)

lemma expiryTimer_present:
  assumes "\<exists>b \<in> set (allBubbles s). id' b = bid"
  shows "snd (expiryTimer bid s) = [IoEmit (BubbleExpired bid)]
         \<and> length (allBubbles (fst (expiryTimer bid s))) + 1 = length (allBubbles s)"
proof -
  let ?i = "findIndex (\<lambda>b. id' b = bid) (allBubbles s)"
  from assms findIndex_absent [of "\<lambda>b. id' b = bid" "allBubbles s"] findIndex_range [of "\<lambda>b. id' b = bid" "allBubbles s"]
  have found: "?i > - 1" by force
  moreover from findIndex_range [of "\<lambda>b. id' b = bid" "allBubbles s"]
  have "nat ?i < length (allBubbles s)" using found by linarith
  ultimately show ?thesis
    by (simp add: expiryTimer_def Let_def splice1_def)
qed

text \<open>When every stored bubble with the identifier is non-private and past its window at
  the time of a sweep, the sweep emits nothing and a timer for the identifier that fires
  afterwards emits nothing either.\<close>

lemma sweep_silences_timer:
  assumes "\<forall>b \<in> set (allBubbles s).
             id' b = bid \<longrightarrow> \<not> isPrivate b \<and> createdAt b + duration b * 1000 \<le> now"
  shows "snd (sweep now s) = []
         \<and> expiryTimer bid (fst (sweep now s)) = (fst (sweep now s), [])"
proof -
  from assms have "\<forall>b \<in> set (allBubbles (fst (sweep now s))). id' b \<noteq> bid"
    by (auto simp: sweep_def Let_def)
  then have "expiryTimer bid (fst (sweep now s)) = (fst (sweep now s), [])"
    by (rule expiryTimer_absent)
  then show ?thesis by (simp add: sweep_def)
qed

text \<open>
  Claim C1 at a concrete run of \<^verbatim>\<open>server.js\<close>. A non-private bubble with a duration of
  two seconds is published at time 1000. When its timer fires before the sweep, the bubble
  is removed and one \<^verbatim>\<open>bubbleExpired\<close> with its identifier is broadcast. When the sweep
  runs first, at time 3000, it removes the bubble and emits nothing, and the timer that
  fires afterwards finds no bubble and emits nothing: no \<^verbatim>\<open>bubbleExpired\<close> is ever
  broadcast for the bubble.
\<close>

theorem sweep_first_loses_expiry_notice:
  "run [OnPublishBubble ''c1'' bubbleA 1000 ''k3j9x0q1z'' 1000,
        OnTimeout (Key (bubbleIdentifier 1000 ''k3j9x0q1z'')) 2000,
        OnSweep 3000] init =
     (init,
      [IoEmit (NewBubble (bubbleA\<lparr>id' := Key (bubbleIdentifier 1000 ''k3j9x0q1z''),
                                  createdAt := 1000\<rparr>)),
       IoEmit (BubbleExpired (Key (bubbleIdentifier 1000 ''k3j9x0q1z'')))])
   \<and> run [OnPublishBubble ''c1'' bubbleA 1000 ''k3j9x0q1z'' 1000,
          OnSweep 3000,
          OnTimeout (Key (bubbleIdentifier 1000 ''k3j9x0q1z'')) 2000] init =
     (init,
      [IoEmit (NewBubble (bubbleA\<lparr>id' := Key (bubbleIdentifier 1000 ''k3j9x0q1z''),
                                  createdAt := 1000\<rparr>))])"
  by (simp add: publishBubble_def expiryTimer_def sweep_def splice1_def init_def bubbleA_def
      Let_def)

section \<open>The periodic sweep of server.js\<close>

text \<open>
  Claim C10. One run of the sweep at observation time \<open>now\<close> keeps, in their order, the
  bubbles that are private or whose window \<open>createdAt + duration * 1000\<close> is still open,
  and removes exactly the non-private bubbles whose window has closed (\<open>createdAt +
  duration * 1000 \<le> now\<close>). The registry, the rooms and the chat log are unchanged, and
  nothing is emitted.
\<close>

theorem sweep_removes_exactly_closed:
  "allBubbles (fst (sweep now s)) =
     filter (\<lambda>b. \<not> (\<not> isPrivate b \<and> createdAt b + duration b * 1000 \<le> now)) (allBubbles s)
   \<and> set (allBubbles s) - set (allBubbles (fst (sweep now s))) =
     {b \<in> set (allBubbles s). \<not> isPrivate b \<and> createdAt b + duration b * 1000 \<le> now}
   \<and> onlineUsers (fst (sweep now s)) = onlineUsers s
   \<and> chatrooms (fst (sweep now s)) = chatrooms s
   \<and> privateChats (fst (sweep now s)) = privateChats s
   \<and> snd (sweep now s) = []"
proof -
  have same: "(\<lambda>b. if isPrivate b then True
                  else (let expireTime = createdAt b + duration b * 1000 in now < expireTime))
            = (\<lambda>b. \<not> (\<not> isPrivate b \<and> createdAt b + duration b * 1000 \<le> now))"
    by (auto simp: Let_def)
  have kept: "allBubbles (fst (sweep now s)) =
     filter (\<lambda>b. \<not> (\<not> isPrivate b \<and> createdAt b + duration b * 1000 \<le> now)) (allBubbles s)"
    by (simp add: sweep_def same)
  have gone: "set (allBubbles s) - set (allBubbles (fst (sweep now s))) =
     {b \<in> set (allBubbles s). \<not> isPrivate b \<and> createdAt b + duration b * 1000 \<le> now}"
    unfolding kept by auto
  show ?thesis using kept gone by (simp add: sweep_def)
qed

theorem sweep_removes_exactly_closed_witness:
  "allBubbles (fst (sweep 3000 (init\<lparr>allBubbles := [bubbleA, bubbleP, bubbleL]\<rparr>)))
     = [bubbleP, bubbleL]
   \<and> snd (sweep 3000 (init\<lparr>allBubbles := [bubbleA, bubbleP, bubbleL]\<rparr>)) = []"
  using sweep_removes_exactly_closed [of 3000 "init\<lparr>allBubbles := [bubbleA, bubbleP, bubbleL]\<rparr>"]
  by (simp add: bubbleA_def bubbleP_def bubbleL_def)

end
